theory Spec2Isabelle
  imports Complex_Main "HOL-Library.AList" "HOL-Library.Multiset"
begin

section \<open>Python values shared by the model\<close>

text \<open>
  The module \<^verbatim>\<open>shakenbreak/input.py\<close> is embedded function by function. Python
  exceptions are values of \<open>py_error\<close>; a function that can raise returns
  \<open>py_error + 'a\<close> with \<open>Inl\<close> for the exception. Python's unbounded integers are
  \<open>int\<close>; Python floats are idealised as \<open>real\<close> (no rounding error is modelled).
  A dictionary whose iteration order the code depends on is an association list with
  distinct keys, in insertion order; otherwise it is a map.
\<close>

datatype py_error =
    ValueError string
  | KeyError string
  | IndexError string
  | TypeError string
  | ZeroDivisionError string
  | Exception string

section \<open>Electron-count model\<close>

text \<open>
  A \<^verbatim>\<open>pymatgen\<close> structure, as far as \<^verbatim>\<open>input.py\<close> reads it: the species of
  its sites, in order, and its matrix of pairwise distances. A defect entry is a
  dictionary in the \<^verbatim>\<open>doped\<close> format. Only the keys that
  \<^verbatim>\<open>input.py\<close> reads are kept. The keys \<^verbatim>\<open>substituting_specie\<close> (antisites)
  and \<^verbatim>\<open>substitution_specie\<close> (substitutions) are present for some defect kinds only,
  so they are optional and reading an absent one is a \<open>KeyError\<close>.
\<close>

record pmg_structure =
  species :: "string list"
  distance_matrix :: "real list list"

text \<open>
  The supercell structure of a defect entry is \<^verbatim>\<open>defect_dict["supercell"]["structure"]\<close>,
  its size \<^verbatim>\<open>defect_dict["supercell"]["size"]\<close>; \<open>bulk_supercell_site\<close> holds the
  fractional coordinates of the site.
\<close>

record defect =
  name :: string
  defect_type :: string
  site_specie :: string
  substituting_specie :: "string option"
  substitution_specie :: "string option"
  charges :: "int list"
  supercell_structure :: pmg_structure
  supercell_size :: "nat list"
  bulk_supercell_site :: "real list"
  unique_site :: "real list"
  site_multiplicity :: nat

type_synonym oxidation_states = "string \<rightharpoonup> int"

text \<open>
  Lines 247-268 of \<^verbatim>\<open>calc_number_electrons\<close>: the \<^verbatim>\<open>if/elif\<close> chain on
  \<^verbatim>\<open>defect_dict["defect_type"]\<close> that picks the pair
  \<open>(site_specie, substituting_specie)\<close>, or raises \<open>ValueError\<close>.
\<close>

definition defect_species :: "defect \<Rightarrow> py_error + (string \<times> string)" where
  "defect_species defect_dict =
     (if defect_type defect_dict = ''vacancy'' then
        Inr (site_specie defect_dict, ''Vac'')
      else if defect_type defect_dict = ''interstitial'' then
        Inr (''Vac'', site_specie defect_dict)
      else if defect_type defect_dict = ''antisite'' then
        (case substituting_specie defect_dict of
           None \<Rightarrow> Inl (KeyError ''substituting_specie'')
         | Some s \<Rightarrow> Inr (site_specie defect_dict, s))
      else if defect_type defect_dict = ''substitution'' then
        (case substitution_specie defect_dict of
           None \<Rightarrow> Inl (KeyError ''substitution_specie'')
         | Some s \<Rightarrow> Inr (site_specie defect_dict, s))
      else
        Inl (ValueError (''`defect_dict` has an invalid `defect_type`: ''
                         @ defect_type defect_dict)))"

text \<open>
  \<^verbatim>\<open>calc_number_electrons(defect_dict, oxidation_states)\<close>. The dictionary
  \<^verbatim>\<open>oxidation_states\<close> is the caller's object and line 245 assigns into it, so the
  model returns the dictionary as it is after the call, next to the result; the
  dictionary is returned on the raising paths too. \<^verbatim>\<open>oxidation_states[substituting_specie]\<close>
  is evaluated before \<^verbatim>\<open>oxidation_states[site_specie]\<close>. The optional printing
  (\<^verbatim>\<open>verbose\<close>) writes to standard output only and is left out.
\<close>

definition calc_number_electrons ::
  "defect \<Rightarrow> oxidation_states \<Rightarrow> (py_error + int) \<times> oxidation_states" where
  "calc_number_electrons defect_dict oxidation_states =
     (let oxidation_states' = oxidation_states(''Vac'' \<mapsto> 0) in
      (case defect_species defect_dict of
         Inl e \<Rightarrow> Inl e
       | Inr (site, substituting) \<Rightarrow>
           (case oxidation_states' substituting of
              None \<Rightarrow> Inl (KeyError substituting)
            | Some ox_substituting \<Rightarrow>
                (case oxidation_states' site of
                   None \<Rightarrow> Inl (KeyError site)
                 | Some ox_site \<Rightarrow>
                     (let num_electrons = ox_substituting - ox_site
                      in Inr (- num_electrons)))),
       oxidation_states'))"

text \<open>\<^verbatim>\<open>calc_number_neighbours(num_electrons)\<close>, lines 283-301.\<close>

definition calc_number_neighbours :: "int \<Rightarrow> int" where
  "calc_number_neighbours num_electrons =
     (let num_neighbours =
        (if \<bar>num_electrons\<bar> > 4 then \<bar>8 - \<bar>num_electrons\<bar>\<bar> else \<bar>num_electrons\<bar>)
      in \<bar>num_neighbours\<bar>)"

text \<open>
  \<^verbatim>\<open>Distortions._get_number_distorted_neighbours\<close>, lines 720-737. The local
  variable \<^verbatim>\<open>num_electrons_charged_defect\<close> is a definition of its own so that
  theorems can name it; the printing is left out.
\<close>

definition num_electrons_charged_defect :: "int \<Rightarrow> int \<Rightarrow> int" where
  "num_electrons_charged_defect number_electrons charge = number_electrons + charge"

definition get_number_distorted_neighbours :: "string \<Rightarrow> int \<Rightarrow> int \<Rightarrow> int" where
  "get_number_distorted_neighbours defect_name number_electrons charge =
     calc_number_neighbours (num_electrons_charged_defect number_electrons charge)"

section \<open>Rattling a bond-distorted structure\<close>

text \<open>
  The functions \<^verbatim>\<open>distort\<close> and \<^verbatim>\<open>rattle\<close> are imported from
  \<^verbatim>\<open>shakenbreak.distortions\<close> and work on \<^verbatim>\<open>pymatgen\<close> structures; the model
  takes both as parameters. Each is a function from the record of its keyword arguments
  to either the exception it raises or its result. Of a structure the code of
  \<^verbatim>\<open>input.py\<close> reads the number of sites (\<^verbatim>\<open>len\<close>) and the matrix of pairwise
  distances (\<^verbatim>\<open>distance_matrix\<close>), which are the fields of \<open>pmg_structure\<close>.
\<close>

type_synonym kwargs = "(string \<times> real) list"

record distort_args =
  da_structure :: pmg_structure
  da_num_nearest_neighbours :: int
  da_distortion_factor :: real
  da_site_index :: "nat option"
  da_frac_coords :: "real list option"
  da_distorted_element :: "string option"
  da_verbose :: bool

text \<open>
  The dictionary \<^verbatim>\<open>distort\<close> returns; \<^verbatim>\<open>distorted_atoms\<close> holds pairs of a
  one-based site index and a species, \<^verbatim>\<open>defect_site_index\<close> is absent for vacancies.
\<close>

record bond_distorted =
  distorted_structure :: pmg_structure
  distorted_atoms :: "(int \<times> string) list"
  defect_site_index :: "int option"

record rattle_args =
  ra_structure :: pmg_structure
  ra_stdev :: real
  ra_d_min :: real
  ra_active_atoms :: "int list option"
  ra_kwargs :: kwargs

text \<open>
  What a call does besides returning: the warnings it emits and the calls of
  \<^verbatim>\<open>rattle\<close> it makes, in the order in which they happen. A warning carries the
  values its message names.
\<close>

text \<open>
  A key of a dictionary of charge states: the integer the sweep stores, or the string
  \<^verbatim>\<open>json.load\<close> returns for it. In Python \<^verbatim>\<open>0 == "0"\<close> is false.
\<close>

datatype dict_key = IntKey int | StrKey string

datatype warning =
    BondLengthTooSmall real
  | RattleRetry real real
  | MetadataConflict string dict_key
  | MetadataCombineProblem

datatype event = Warned warning | RattleCalled rattle_args

text \<open>\<^verbatim>\<open>str(e)\<close> of an exception: its message; for a \<open>KeyError\<close> the quoted key.\<close>

fun py_str :: "py_error \<Rightarrow> string" where
  "py_str (ValueError m) = m"
| "py_str (KeyError k) = [CHR 0x27] @ k @ [CHR 0x27]"
| "py_str (IndexError m) = m"
| "py_str (TypeError m) = m"
| "py_str (ZeroDivisionError m) = m"
| "py_str (Exception m) = m"

text \<open>Python's \<^verbatim>\<open>needle in haystack\<close> on strings.\<close>

fun str_contains :: "string \<Rightarrow> string \<Rightarrow> bool" where
  "str_contains needle [] = (needle = [])"
| "str_contains needle (c # cs) =
     (take (length needle) (c # cs) = needle \<or> str_contains needle cs)"

text \<open>
  Lines 379-392 of \<^verbatim>\<open>apply_rattle_bond_distortions\<close>, which lines 532-546 of
  \<^verbatim>\<open>apply_snb_distortions\<close> repeat word for word: the value of \<^verbatim>\<open>d_min\<close> after the
  block \<^verbatim>\<open>if not d_min: ...\<close>. \<^verbatim>\<open>not d_min\<close> holds for \<^verbatim>\<open>None\<close> and for
  zero. Reading the sorted array past its end raises \<open>IndexError\<close>.
\<close>

definition default_d_min :: "real option \<Rightarrow> pmg_structure \<Rightarrow> (py_error + real) \<times> event list" where
  "default_d_min d_min defect_supercell =
     (if d_min = None \<or> d_min = Some 0 then
        (let sorted_distances = sort (concat (distance_matrix defect_supercell));
             i = length (species defect_supercell) + 20
         in if i < length sorted_distances then
              (let d_min' = (8 / 10) * (sorted_distances ! i)
               in if d_min' < 1 then
                    (Inr (225 / 100), [Warned (BondLengthTooSmall ((1 / (8 / 10)) * d_min'))])
                  else (Inr d_min', []))
            else (Inl (IndexError ''index out of bounds''), []))
      else (Inr (the d_min), []))"

text \<open>
  Lines 394-410: the default set of rattled sites, every zero-based site index except
  those of the bond-distorted neighbours and of the defect site.
\<close>

definition default_active_atoms :: "defect \<Rightarrow> bond_distorted \<Rightarrow> int list" where
  "default_active_atoms defect_dict bond_distorted_defect =
     (let distorted_atom_indices =
            map (\<lambda>i. Some (fst i)) (distorted_atoms bond_distorted_defect)
            @ [defect_site_index bond_distorted_defect];
          distorted_atom_indices' =
            map (\<lambda>i. the i - 1) (filter (\<lambda>i. i \<noteq> None) distorted_atom_indices);
          rattling_atom_indices =
            map int [0 ..< length (species (supercell_structure defect_dict))]
      in filter (\<lambda>i. i \<notin> set distorted_atom_indices') rattling_atom_indices)"

text \<open>
  Lines 354-376: the keyword arguments of the call of \<^verbatim>\<open>distort\<close>. A vacancy has
  no site in the structure and is given by its fractional coordinates; every other
  defect by the one-based index of the last site.
\<close>

definition distort_call_args ::
  "defect \<Rightarrow> int \<Rightarrow> real \<Rightarrow> string option \<Rightarrow> bool \<Rightarrow> distort_args" where
  "distort_call_args defect_dict num_nearest_neighbours distortion_factor distorted_element
       verbose =
     (if defect_type defect_dict = ''vacancy'' then
        \<lparr>da_structure = supercell_structure defect_dict,
         da_num_nearest_neighbours = num_nearest_neighbours,
         da_distortion_factor = distortion_factor,
         da_site_index = None,
         da_frac_coords = Some (bulk_supercell_site defect_dict),
         da_distorted_element = distorted_element, da_verbose = verbose\<rparr>
      else
        \<lparr>da_structure = supercell_structure defect_dict,
         da_num_nearest_neighbours = num_nearest_neighbours,
         da_distortion_factor = distortion_factor,
         da_site_index = Some (length (species (supercell_structure defect_dict))),
         da_frac_coords = None,
         da_distorted_element = distorted_element, da_verbose = verbose\<rparr>)"

text \<open>
  \<^verbatim>\<open>apply_rattle_bond_distortions\<close>, lines 304-440. An exception raised by
  \<^verbatim>\<open>distort\<close> or by the \<^verbatim>\<open>d_min\<close> block is outside the \<^verbatim>\<open>try\<close> and propagates.
  Inside the handler, the second call of \<^verbatim>\<open>rattle\<close> comes before the warning, so a
  second failure leaves without the warning.
\<close>

definition apply_rattle_bond_distortions ::
  "(distort_args \<Rightarrow> py_error + bond_distorted) \<Rightarrow> (rattle_args \<Rightarrow> py_error + pmg_structure) \<Rightarrow>
   defect \<Rightarrow> int \<Rightarrow> real \<Rightarrow> real \<Rightarrow> real option \<Rightarrow> int list option \<Rightarrow> string option \<Rightarrow>
   bool \<Rightarrow> kwargs \<Rightarrow> (py_error + bond_distorted) \<times> event list" where
  "apply_rattle_bond_distortions distort rattle defect_dict num_nearest_neighbours
       distortion_factor stdev d_min active_atoms distorted_element verbose kwargs =
     (case distort (distort_call_args defect_dict num_nearest_neighbours distortion_factor
                      distorted_element verbose) of
        Inl e \<Rightarrow> (Inl e, [])
      | Inr bond_distorted_defect \<Rightarrow>
          (case default_d_min d_min (supercell_structure defect_dict) of
             (Inl e, evs) \<Rightarrow> (Inl e, evs)
           | (Inr d_min', evs) \<Rightarrow>
               (let active_atoms' =
                      (case active_atoms of
                         None \<Rightarrow> default_active_atoms defect_dict bond_distorted_defect
                       | Some a \<Rightarrow> a);
                    first_call =
                      \<lparr>ra_structure = distorted_structure bond_distorted_defect,
                       ra_stdev = stdev, ra_d_min = d_min',
                       ra_active_atoms = Some active_atoms', ra_kwargs = kwargs\<rparr>
                in case rattle first_call of
                     Inr rattled \<Rightarrow>
                       (Inr (bond_distorted_defect\<lparr>distorted_structure := rattled\<rparr>),
                        evs @ [RattleCalled first_call])
                   | Inl e \<Rightarrow>
                       if str_contains ''attempts'' (py_str e) then
                         (let distorted_defect_struc = distorted_structure bond_distorted_defect;
                              sorted_distances =
                                sort (concat (distance_matrix distorted_defect_struc));
                              n = length (species distorted_defect_struc)
                          in if n < length sorted_distances then
                               (let reduced_d_min = sorted_distances ! n + 2 * stdev;
                                    second_call =
                                      \<lparr>ra_structure = distorted_structure bond_distorted_defect,
                                       ra_stdev = stdev, ra_d_min = reduced_d_min,
                                       ra_active_atoms = Some active_atoms',
                                       ra_kwargs = kwargs\<rparr>
                                in case rattle second_call of
                                     Inl e2 \<Rightarrow>
                                       (Inl e2,
                                        evs @ [RattleCalled first_call, RattleCalled second_call])
                                   | Inr rattled \<Rightarrow>
                                       (Inr (bond_distorted_defect
                                               \<lparr>distorted_structure := rattled\<rparr>),
                                        evs @ [RattleCalled first_call, RattleCalled second_call,
                                               Warned (RattleRetry d_min' reduced_d_min)]))
                             else (Inl (IndexError ''index out of bounds''),
                                   evs @ [RattleCalled first_call]))
                       else (Inl e, evs @ [RattleCalled first_call]))))"

section \<open>The distortions of one charged defect\<close>

text \<open>
  A \<^verbatim>\<open>for\<close> loop whose body may raise: the body takes the loop variable and the
  state the loop updates, and returns the new state or the exception, with the events
  of that iteration. The first exception ends the loop.
\<close>

fun for_loop ::
  "('a \<Rightarrow> 's \<Rightarrow> (py_error + 's) \<times> event list) \<Rightarrow> 'a list \<Rightarrow> 's \<Rightarrow> (py_error + 's) \<times> event list"
  where
  "for_loop body [] s = (Inr s, [])"
| "for_loop body (x # xs) s =
     (case body x s of
        (Inl e, evs) \<Rightarrow> (Inl e, evs)
      | (Inr s', evs) \<Rightarrow> (case for_loop body xs s' of (r, evs') \<Rightarrow> (r, evs @ evs')))"

text \<open>
  Python's \<^verbatim>\<open>round(x, ndigits)\<close> and \<^verbatim>\<open>numpy.around\<close> on the reals: the nearest
  multiple of \<open>10 ^ -ndigits\<close>, a tie going to the even one.
\<close>

definition round_half_even :: "real \<Rightarrow> int" where
  "round_half_even x =
     (let f = \<lfloor>x\<rfloor>; r = x - of_int f
      in if r < 1 / 2 then f else if 1 / 2 < r then f + 1 else if even f then f else f + 1)"

definition py_round :: "real \<Rightarrow> nat \<Rightarrow> real" where
  "py_round x ndigits = of_int (round_half_even (x * 10 ^ ndigits)) / 10 ^ ndigits"

text \<open>
  Modelled from the spec: \<^verbatim>\<open>_get_distortion_filename\<close> is imported from
  \<^verbatim>\<open>shakenbreak.analysis\<close>, which is not among the sources. The spec gives the label
  of a bond distortion as \<^verbatim>\<open>"Bond_Distortion_<signed-percentage>%"\<close>; how the
  percentage is written is the parameter \<open>percentage\<close>.
\<close>

definition get_distortion_filename :: "(real \<Rightarrow> string) \<Rightarrow> real \<Rightarrow> string" where
  "get_distortion_filename percentage distortion =
     ''Bond_Distortion_'' @ percentage distortion @ ''%''"

text \<open>
  The dictionary \<^verbatim>\<open>apply_snb_distortions\<close> returns. \<^verbatim>\<open>"distortions"\<close> maps a label
  to a structure, in insertion order; \<^verbatim>\<open>"distortion_parameters"\<close> starts as the empty
  dictionary (\<open>None\<close>) and is replaced by a dictionary with the keys below, of which
  \<^verbatim>\<open>"defect_site_index"\<close> is optional.
\<close>

record distortion_parameters =
  dp_unique_site :: "real list"
  dp_num_distorted_neighbours :: int
  dp_distorted_atoms :: "(int \<times> string) list option"
  dp_defect_site_index :: "int option"

record snb_distortions =
  snb_Unperturbed :: defect
  snb_distortions :: "(string \<times> pmg_structure) list"
  snb_distortion_parameters :: "distortion_parameters option"

text \<open>
  The keyword arguments \<^verbatim>\<open>**kwargs\<close>. Python binds a keyword to the parameter of
  that name when the called function has one, and collects the others. Of the keywords
  that travel through \<^verbatim>\<open>input.py\<close>, \<^verbatim>\<open>d_min\<close> is a parameter of
  \<^verbatim>\<open>apply_snb_distortions\<close> and \<^verbatim>\<open>active_atoms\<close> one of
  \<^verbatim>\<open>apply_rattle_bond_distortions\<close> and of \<^verbatim>\<open>rattle\<close>; the others
  (\<^verbatim>\<open>seed\<close>, \<^verbatim>\<open>n_iter\<close>, \<^verbatim>\<open>max_attempts\<close>, ...) reach \<^verbatim>\<open>rattle\<close>
  as they are. \<open>snb_kwargs\<close> is what \<^verbatim>\<open>apply_snb_distortions\<close> collects,
  \<open>mc_rattle_kwargs\<close> what \<^verbatim>\<open>Distortions.__init__\<close> collects; an absent keyword
  is \<open>None\<close>, which is also the default value of both parameters.
\<close>

record snb_kwargs =
  kw_active_atoms :: "int list option"
  kw_rest :: kwargs

record mc_rattle_kwargs = snb_kwargs +
  kw_d_min :: "real option"

text \<open>Python's truth value of an optional integer: \<^verbatim>\<open>None\<close> and 0 are false.\<close>

definition truthy_int :: "int option \<Rightarrow> bool" where
  "truthy_int i = (i \<noteq> None \<and> i \<noteq> Some 0)"

text \<open>
  The body of the loop of lines 491-521, for one entry \<^verbatim>\<open>distortion\<close> of
  \<^verbatim>\<open>bond_distortions\<close>. The call passes \<^verbatim>\<open>**kwargs\<close> on, so an
  \<^verbatim>\<open>active_atoms\<close> among them binds to the parameter of that name.
  \<open>filename\<close> stands for \<^verbatim>\<open>_get_distortion_filename\<close>.
\<close>

definition snb_distortion_step ::
  "(distort_args \<Rightarrow> py_error + bond_distorted) \<Rightarrow> (rattle_args \<Rightarrow> py_error + pmg_structure) \<Rightarrow>
   (real \<Rightarrow> string) \<Rightarrow> defect \<Rightarrow> int \<Rightarrow> real \<Rightarrow> real option \<Rightarrow> string option \<Rightarrow> bool \<Rightarrow>
   snb_kwargs \<Rightarrow> real \<Rightarrow> snb_distortions \<Rightarrow> (py_error + snb_distortions) \<times> event list" where
  "snb_distortion_step distort rattle filename defect_dict num_nearest_neighbours stdev d_min
       distorted_element verbose kwargs distortion distorted_defect_dict =
     (let distortion' = py_round distortion 3 + 0;
          distortion_factor = 1 + distortion'
      in case apply_rattle_bond_distortions distort rattle defect_dict num_nearest_neighbours
                distortion_factor stdev d_min (kw_active_atoms kwargs) distorted_element
                verbose (kw_rest kwargs) of
           (Inl e, evs) \<Rightarrow> (Inl e, evs)
         | (Inr bond_distorted_defect, evs) \<Rightarrow>
             (Inr (distorted_defect_dict
                \<lparr>snb_distortions :=
                   AList.update (filename distortion')
                     (distorted_structure bond_distorted_defect)
                     (snb_distortions distorted_defect_dict),
                 snb_distortion_parameters :=
                   Some \<lparr>dp_unique_site = bulk_supercell_site defect_dict,
                         dp_num_distorted_neighbours = num_nearest_neighbours,
                         dp_distorted_atoms = Some (distorted_atoms bond_distorted_defect),
                         dp_defect_site_index =
                           (if truthy_int (defect_site_index bond_distorted_defect)
                            then defect_site_index bond_distorted_defect else None)\<rparr>\<rparr>),
              evs))"

text \<open>
  \<^verbatim>\<open>apply_snb_distortions\<close>, lines 443-560. With no neighbour to distort the whole
  supercell structure is passed to \<^verbatim>\<open>rattle\<close> with \<^verbatim>\<open>**kwargs\<close>: the function
  computes no set of active atoms, so \<^verbatim>\<open>rattle\<close> gets the caller's
  \<^verbatim>\<open>active_atoms\<close> or none.
\<close>

definition apply_snb_distortions ::
  "(distort_args \<Rightarrow> py_error + bond_distorted) \<Rightarrow> (rattle_args \<Rightarrow> py_error + pmg_structure) \<Rightarrow>
   (real \<Rightarrow> string) \<Rightarrow> defect \<Rightarrow> int \<Rightarrow> real list \<Rightarrow> real \<Rightarrow> real option \<Rightarrow> string option \<Rightarrow>
   bool \<Rightarrow> snb_kwargs \<Rightarrow> (py_error + snb_distortions) \<times> event list" where
  "apply_snb_distortions distort rattle filename defect_dict num_nearest_neighbours
       bond_distortions stdev d_min distorted_element verbose kwargs =
     (let distorted_defect_dict =
            \<lparr>snb_Unperturbed = defect_dict, snb_distortions = [],
             snb_distortion_parameters = None\<rparr>
      in if num_nearest_neighbours \<noteq> 0 then
           for_loop
             (snb_distortion_step distort rattle filename defect_dict num_nearest_neighbours
                stdev d_min distorted_element verbose kwargs)
             bond_distortions distorted_defect_dict
         else
           (let site_index =
                  (if defect_type defect_dict = ''vacancy'' then None
                   else Some (int (length (species (supercell_structure defect_dict)))))
            in case default_d_min d_min (supercell_structure defect_dict) of
                 (Inl e, evs) \<Rightarrow> (Inl e, evs)
               | (Inr d_min', evs) \<Rightarrow>
                   (let call = \<lparr>ra_structure = supercell_structure defect_dict,
                                ra_stdev = stdev, ra_d_min = d_min',
                                ra_active_atoms = kw_active_atoms kwargs,
                                ra_kwargs = kw_rest kwargs\<rparr>
                    in case rattle call of
                         Inl e \<Rightarrow> (Inl e, evs @ [RattleCalled call])
                       | Inr perturbed_structure \<Rightarrow>
                           (Inr (distorted_defect_dict
                              \<lparr>snb_distortions :=
                                 AList.update ''Rattled'' perturbed_structure
                                   (snb_distortions distorted_defect_dict),
                               snb_distortion_parameters :=
                                 Some \<lparr>dp_unique_site = bulk_supercell_site defect_dict,
                                       dp_num_distorted_neighbours = num_nearest_neighbours,
                                       dp_distorted_atoms = None,
                                       dp_defect_site_index =
                                         (if truthy_int site_index then site_index
                                          else None)\<rparr>\<rparr>),
                            evs @ [RattleCalled call]))))"

section \<open>The sweep over defects and charge states\<close>

text \<open>
  The metadata tree \<^verbatim>\<open>Distortions.distortion_metadata\<close>, which is also the document
  \<^verbatim>\<open>_write_distortion_metadata\<close> reads back from disk. A key that a document read from
  disk may lack, and that the code indexes, is an optional field; indexing an absent one
  is a \<open>KeyError\<close>. Dictionaries that are iterated are association lists.
\<close>

record charge_distortion_parameters =
  cdp_bond_distortions :: "real list option"
  cdp_rattle_stdev :: "real option"

record charge_metadata =
  cm_num_nearest_neighbours :: int
  cm_distorted_atoms :: "(int \<times> string) list option"
  cm_distortion_parameters :: "charge_distortion_parameters option"

record defect_metadata =
  dm_unique_site :: "real list"
  dm_charges :: "(dict_key \<times> charge_metadata) list option"
  dm_defect_site_index :: "int option"

record run_parameters =
  rp_distortion_increment :: "real option"
  rp_bond_distortions :: "real list"
  rp_rattle_stdev :: real

record distortion_metadata =
  md_distortion_parameters :: run_parameters
  md_defects :: "(string \<times> defect_metadata) list option"

text \<open>The attributes of a \<^verbatim>\<open>Distortions\<close> object, named as in \<^verbatim>\<open>self.<name>\<close>.\<close>

record Distortions =
  self_defects_dict :: "(string \<times> defect list) list"
  self_oxidation_states :: oxidation_states
  self_distorted_elements :: "(string \<times> string) list option"
  self_dict_number_electrons_user :: "(string \<times> int) list option"
  self_stdev :: real
  self_distortion_increment :: "real option"
  self_bond_distortions :: "real list"
  self_mc_rattle_kwargs :: mc_rattle_kwargs
  self_distortion_metadata :: distortion_metadata

text \<open>
  \<^verbatim>\<open>numpy.arange(0, stop, step)\<close> on the reals: \<open>\<lceil>stop / step\<rceil>\<close> multiples of
  \<open>step\<close>, none for a negative quotient; a step of zero is refused by \<^verbatim>\<open>numpy\<close>.
\<close>

definition np_arange_from_0 :: "real \<Rightarrow> real \<Rightarrow> py_error + real list" where
  "np_arange_from_0 stop step =
     (if step = 0 then Inl (ValueError ''Maximum allowed size exceeded'')
      else Inr (map (\<lambda>k. real k * step) [0 ..< nat \<lceil>stop / step\<rceil>]))"

text \<open>
  \<^verbatim>\<open>Distortions.__init__\<close>, lines 570-646. The parameter \<^verbatim>\<open>oxidation_states\<close> has
  no default value: a call that does not pass it is rejected by Python with a
  \<open>TypeError\<close> before the body runs, which is the argument \<open>None\<close> here. The
  parameters with a default value of \<^verbatim>\<open>None\<close> are optional values as in the source;
  \<^verbatim>\<open>if bond_distortions:\<close> holds for a list that is not empty.
\<close>

definition Distortions_init ::
  "(string \<times> defect list) list \<Rightarrow> oxidation_states option \<Rightarrow> (string \<times> int) list option \<Rightarrow>
   real \<Rightarrow> real list option \<Rightarrow> real \<Rightarrow> (string \<times> string) list option \<Rightarrow> mc_rattle_kwargs \<Rightarrow>
   py_error + Distortions" where
  "Distortions_init defects_dict oxidation_states dict_number_electrons_user
       distortion_increment bond_distortions stdev distorted_elements kwargs =
     (case oxidation_states of
        None \<Rightarrow>
          Inl (TypeError
            ''__init__() missing 1 required positional argument: oxidation_states'')
      | Some oxidation_states' \<Rightarrow>
          (case (if bond_distortions \<noteq> None \<and> bond_distortions \<noteq> Some [] then
                   Inr (None, map (\<lambda>x. py_round x 3) (the bond_distortions))
                 else
                   (case np_arange_from_0 (601 / 1000) distortion_increment of
                      Inl e \<Rightarrow> Inl e
                    | Inr grid \<Rightarrow>
                        (let rounded = map (\<lambda>x. py_round x 3) grid
                         in Inr (Some distortion_increment,
                                 butlast (map (\<lambda>x. x * - 1) (rev rounded)) @ rounded)))) of
             Inl e \<Rightarrow> Inl e
           | Inr (increment, distortions) \<Rightarrow>
               Inr \<lparr>self_defects_dict = defects_dict,
                    self_oxidation_states = oxidation_states',
                    self_distorted_elements = distorted_elements,
                    self_dict_number_electrons_user = dict_number_electrons_user,
                    self_stdev = stdev,
                    self_distortion_increment = increment,
                    self_bond_distortions = distortions,
                    self_mc_rattle_kwargs = kwargs,
                    self_distortion_metadata =
                      \<lparr>md_distortion_parameters =
                         \<lparr>rp_distortion_increment = increment,
                          rp_bond_distortions = distortions,
                          rp_rattle_stdev = stdev\<rparr>,
                       md_defects = Some []\<rparr>\<rparr>))"

text \<open>
  \<^verbatim>\<open>Distortions._parse_distorted_element\<close>, lines 648-676. In the handler of the
  \<open>KeyError\<close> the call \<^verbatim>\<open>warnings.warn\<close> is given three strings; the second is taken
  as the warning category, and \<^verbatim>\<open>warnings.warn\<close> raises \<open>TypeError\<close> for a category
  that is not a class.
\<close>

definition parse_distorted_element ::
  "string \<Rightarrow> (string \<times> string) list option \<Rightarrow> py_error + string option" where
  "parse_distorted_element defect_name distorted_elements =
     (if distorted_elements \<noteq> None \<and> distorted_elements \<noteq> Some [] then
        (case map_of (the distorted_elements) defect_name of
           Some distorted_element \<Rightarrow> Inr (Some distorted_element)
         | None \<Rightarrow> Inl (TypeError ''category must be a Warning subclass, not str''))
      else Inr None)"

text \<open>
  \<^verbatim>\<open>Distortions._parse_number_electrons\<close>, lines 678-718, without the printing. As
  \<^verbatim>\<open>calc_number_electrons\<close> it returns the oxidation-state mapping as it is after the
  call.
\<close>

definition parse_number_electrons ::
  "string \<Rightarrow> oxidation_states \<Rightarrow> (string \<times> int) list option \<Rightarrow> defect \<Rightarrow>
   (py_error + int) \<times> oxidation_states" where
  "parse_number_electrons defect_name oxidation_states dict_number_electrons_user defect_dict =
     (if dict_number_electrons_user \<noteq> None \<and> dict_number_electrons_user \<noteq> Some [] then
        (case map_of (the dict_number_electrons_user) defect_name of
           None \<Rightarrow> (Inl (KeyError defect_name), oxidation_states)
         | Some number_electrons \<Rightarrow> (Inr number_electrons, oxidation_states))
      else calc_number_electrons defect_dict oxidation_states)"

text \<open>\<^verbatim>\<open>Distortions._update_distortion_metadata\<close>, lines 754-785.\<close>

definition update_distortion_metadata ::
  "Distortions \<Rightarrow> distortion_metadata \<Rightarrow> string \<Rightarrow> int \<Rightarrow> int option \<Rightarrow> int \<Rightarrow>
   (int \<times> string) list option \<Rightarrow> py_error + distortion_metadata" where
  "update_distortion_metadata self metadata defect_name charge site_index
       num_nearest_neighbours distorted =
     (case md_defects metadata of
        None \<Rightarrow> Inl (KeyError ''defects'')
      | Some defects \<Rightarrow>
          (case map_of defects defect_name of
             None \<Rightarrow> Inl (KeyError defect_name)
           | Some entry \<Rightarrow>
               (let entry' = (if truthy_int site_index
                              then entry\<lparr>dm_defect_site_index := site_index\<rparr> else entry)
                in case dm_charges entry' of
                     None \<Rightarrow> Inl (KeyError ''charges'')
                   | Some charge_dict \<Rightarrow>
                       Inr (metadata\<lparr>md_defects := Some
                         (AList.update defect_name
                            (entry'\<lparr>dm_charges := Some
                               (AList.update (IntKey charge)
                                  \<lparr>cm_num_nearest_neighbours = num_nearest_neighbours,
                                   cm_distorted_atoms = distorted,
                                   cm_distortion_parameters = Some
                                     \<lparr>cdp_bond_distortions = Some (self_bond_distortions self),
                                      cdp_rattle_stdev = Some (self_stdev self)\<rparr>\<rparr>
                                  charge_dict)\<rparr>)
                            defects)\<rparr>))))"

text \<open>
  An entry of the dictionary \<^verbatim>\<open>apply_distortions\<close> returns, and the dictionary
  \<^verbatim>\<open>{"Unperturbed": ..., "distortions": ...}\<close> stored under \<^verbatim>\<open>"structures"\<close> for one
  charge state; a charge state starts with the empty dictionary (\<open>None\<close>).
\<close>

record charge_structures =
  cs_Unperturbed :: pmg_structure
  cs_distortions :: "(string \<times> pmg_structure) list"

record distorted_defect_entry =
  dde_defect_type :: string
  dde_defect_site :: "real list"
  dde_defect_supercell_site :: "real list"
  dde_defect_multiplicity :: nat
  dde_supercell :: "nat list"
  dde_charges :: "(int \<times> charge_structures option) list"
  dde_substitution_specie :: "string option"

text \<open>\<^verbatim>\<open>Distortions._setup_distorted_defect_dict\<close>, lines 797-816.\<close>

definition setup_distorted_defect_dict ::
  "string \<Rightarrow> defect \<Rightarrow> (string \<times> distorted_defect_entry) list \<Rightarrow>
   (string \<times> distorted_defect_entry) list" where
  "setup_distorted_defect_dict defect_name defect_dict distorted_defects_dict =
     AList.update defect_name
       \<lparr>dde_defect_type = name defect_dict,
        dde_defect_site = unique_site defect_dict,
        dde_defect_supercell_site = bulk_supercell_site defect_dict,
        dde_defect_multiplicity = site_multiplicity defect_dict,
        dde_supercell = supercell_size defect_dict,
        dde_charges = fold (\<lambda>charge. AList.update charge None) (charges defect_dict) [],
        dde_substitution_specie = substitution_specie defect_dict\<rparr>
       distorted_defects_dict"

text \<open>
  What the two nested loops of \<^verbatim>\<open>apply_distortions\<close> update: the local dictionary
  \<^verbatim>\<open>distorted_defects_dict\<close>, \<^verbatim>\<open>self.distortion_metadata\<close>, and
  \<^verbatim>\<open>self.oxidation_states\<close> (through \<^verbatim>\<open>calc_number_electrons\<close>).
\<close>

record sweep_state =
  sw_distorted_defects_dict :: "(string \<times> distorted_defect_entry) list"
  sw_distortion_metadata :: distortion_metadata
  sw_oxidation_states :: oxidation_states

text \<open>
  Lines 885-922, the body of the loop over the charge states of one defect. The call of
  \<^verbatim>\<open>apply_snb_distortions\<close> passes \<^verbatim>\<open>**self._mc_rattle_kwargs\<close>, so a
  \<^verbatim>\<open>d_min\<close> among them binds to the parameter of that name and the others are
  collected. Every entry of \<^verbatim>\<open>defect_distorted_structures["distortions"]\<close> is
  copied into the result.
\<close>

definition charge_step ::
  "(distort_args \<Rightarrow> py_error + bond_distorted) \<Rightarrow> (rattle_args \<Rightarrow> py_error + pmg_structure) \<Rightarrow>
   (real \<Rightarrow> string) \<Rightarrow> Distortions \<Rightarrow> bool \<Rightarrow> defect \<Rightarrow> string option \<Rightarrow> int \<Rightarrow> int \<Rightarrow>
   sweep_state \<Rightarrow> (py_error + sweep_state) \<times> event list" where
  "charge_step distort rattle filename self verbose defect_dict distorted_element
       number_electrons charge state =
     (let defect_name = name defect_dict;
          num_nearest_neighbours =
            get_number_distorted_neighbours defect_name number_electrons charge
      in case apply_snb_distortions distort rattle filename defect_dict num_nearest_neighbours
                (self_bond_distortions self) (self_stdev self)
                (kw_d_min (self_mc_rattle_kwargs self)) distorted_element verbose
                \<lparr>kw_active_atoms = kw_active_atoms (self_mc_rattle_kwargs self),
                 kw_rest = kw_rest (self_mc_rattle_kwargs self)\<rparr> of
           (Inl e, evs) \<Rightarrow> (Inl e, evs)
         | (Inr defect_distorted_structures, evs) \<Rightarrow>
             (case map_of (sw_distorted_defects_dict state) defect_name of
                None \<Rightarrow> (Inl (KeyError defect_name), evs)
              | Some entry \<Rightarrow>
                  (case map_of (dde_charges entry) charge of
                     None \<Rightarrow> (Inl (KeyError ''charge''), evs)
                   | Some _ \<Rightarrow>
                       (let distorted_defects_dict' =
                              AList.update defect_name
                                (entry\<lparr>dde_charges :=
                                   AList.update charge
                                     (Some \<lparr>cs_Unperturbed =
                                              supercell_structure
                                                (snb_Unperturbed defect_distorted_structures),
                                            cs_distortions =
                                              snb_distortions defect_distorted_structures\<rparr>)
                                     (dde_charges entry)\<rparr>)
                                (sw_distorted_defects_dict state)
                        in case snb_distortion_parameters defect_distorted_structures of
                             None \<Rightarrow> (Inl (KeyError ''distorted_atoms''), evs)
                           | Some parameters \<Rightarrow>
                               (case update_distortion_metadata self
                                       (sw_distortion_metadata state) defect_name charge
                                       (dp_defect_site_index parameters)
                                       num_nearest_neighbours
                                       (dp_distorted_atoms parameters) of
                                  Inl e \<Rightarrow> (Inl e, evs)
                                | Inr metadata' \<Rightarrow>
                                    (Inr (state
                                       \<lparr>sw_distorted_defects_dict := distorted_defects_dict',
                                        sw_distortion_metadata := metadata'\<rparr>),
                                     evs))))))"

text \<open>Lines 857-922, the body of the loop over the defects.\<close>

definition defect_step ::
  "(distort_args \<Rightarrow> py_error + bond_distorted) \<Rightarrow> (rattle_args \<Rightarrow> py_error + pmg_structure) \<Rightarrow>
   (real \<Rightarrow> string) \<Rightarrow> Distortions \<Rightarrow> bool \<Rightarrow> defect \<Rightarrow> sweep_state \<Rightarrow>
   (py_error + sweep_state) \<times> event list" where
  "defect_step distort rattle filename self verbose defect_dict state =
     (let defect_name = name defect_dict
      in case parse_distorted_element defect_name (self_distorted_elements self) of
           Inl e \<Rightarrow> (Inl e, [])
         | Inr distorted_element \<Rightarrow>
             (case parse_number_electrons defect_name (sw_oxidation_states state)
                     (self_dict_number_electrons_user self) defect_dict of
                (Inl e, oxidation_states') \<Rightarrow> (Inl e, [])
              | (Inr number_electrons, oxidation_states') \<Rightarrow>
                  (case md_defects (sw_distortion_metadata state) of
                     None \<Rightarrow> (Inl (KeyError ''defects''), [])
                   | Some defects \<Rightarrow>
                       for_loop
                         (charge_step distort rattle filename self verbose defect_dict
                            distorted_element number_electrons)
                         (charges defect_dict)
                         \<lparr>sw_distorted_defects_dict =
                            setup_distorted_defect_dict defect_name defect_dict
                              (sw_distorted_defects_dict state),
                          sw_distortion_metadata =
                            (sw_distortion_metadata state)\<lparr>md_defects := Some
                               (AList.update defect_name
                                  \<lparr>dm_unique_site = bulk_supercell_site defect_dict,
                                   dm_charges = Some [],
                                   dm_defect_site_index = None\<rparr>
                                  defects)\<rparr>,
                          sw_oxidation_states = oxidation_states'\<rparr>)))"

text \<open>
  \<^verbatim>\<open>Distortions.apply_distortions\<close>, lines 818-924, without the printing. The defects
  are the concatenation of the lists under every key of \<^verbatim>\<open>self.defects_dict\<close> but
  \<^verbatim>\<open>"bulk"\<close>; \<^verbatim>\<open>functools.reduce\<close> raises \<open>TypeError\<close> when there is no such key.
  The result is the pair the method returns, and the object as the call leaves it.
\<close>

definition apply_distortions ::
  "(distort_args \<Rightarrow> py_error + bond_distorted) \<Rightarrow> (rattle_args \<Rightarrow> py_error + pmg_structure) \<Rightarrow>
   (real \<Rightarrow> string) \<Rightarrow> Distortions \<Rightarrow> bool \<Rightarrow>
   (py_error + ((string \<times> distorted_defect_entry) list \<times> distortion_metadata) \<times> Distortions)
   \<times> event list" where
  "apply_distortions distort rattle filename self verbose =
     (let defect_lists =
            map snd (filter (\<lambda>entry. fst entry \<noteq> ''bulk'') (self_defects_dict self))
      in if defect_lists = [] then
           (Inl (TypeError ''reduce() of empty iterable with no initial value''), [])
         else
           (let comb_defs = concat defect_lists
            in case for_loop (defect_step distort rattle filename self verbose) comb_defs
                      \<lparr>sw_distorted_defects_dict = [],
                       sw_distortion_metadata = self_distortion_metadata self,
                       sw_oxidation_states = self_oxidation_states self\<rparr> of
                 (Inl e, evs) \<Rightarrow> (Inl e, evs)
               | (Inr state, evs) \<Rightarrow>
                   (Inr ((sw_distorted_defects_dict state, sw_distortion_metadata state),
                         self\<lparr>self_distortion_metadata := sw_distortion_metadata state,
                              self_oxidation_states := sw_oxidation_states state\<rparr>),
                    evs)))"

section \<open>Writing and merging the metadata\<close>

text \<open>
  A \<^verbatim>\<open>for\<close> loop over a dictionary that is updated in place, inside a \<^verbatim>\<open>try\<close>
  block: when an iteration raises, the updates made so far stay, so the body returns the
  dictionary as it has become, the exception if there is one, and its events.
\<close>

fun for_loop_in_place ::
  "('a \<Rightarrow> 's \<Rightarrow> 's \<times> py_error option \<times> event list) \<Rightarrow> 'a list \<Rightarrow> 's \<Rightarrow>
   's \<times> py_error option \<times> event list" where
  "for_loop_in_place body [] s = (s, None, [])"
| "for_loop_in_place body (x # xs) s =
     (case body x s of
        (s', Some e, evs) \<Rightarrow> (s', Some e, evs)
      | (s', None, evs) \<Rightarrow>
          (case for_loop_in_place body xs s' of (s'', err, evs') \<Rightarrow> (s'', err, evs @ evs')))"

text \<open>\<^verbatim>\<open>metadata["defects"][defect]["charges"]\<close>, each index raising \<open>KeyError\<close>.\<close>

definition lookup_charges ::
  "distortion_metadata \<Rightarrow> string \<Rightarrow> py_error + (dict_key \<times> charge_metadata) list" where
  "lookup_charges metadata defect_name =
     (case md_defects metadata of
        None \<Rightarrow> Inl (KeyError ''defects'')
      | Some defects \<Rightarrow>
          (case map_of defects defect_name of
             None \<Rightarrow> Inl (KeyError defect_name)
           | Some entry \<Rightarrow>
               (case dm_charges entry of
                  None \<Rightarrow> Inl (KeyError ''charges'')
                | Some charge_dict \<Rightarrow> Inr charge_dict)))"

text \<open>
  The assignment \<^verbatim>\<open>metadata["defects"][defect]["charges"][charge] = entry\<close> where
  the three outer keys exist.
\<close>

definition store_charge ::
  "distortion_metadata \<Rightarrow> string \<Rightarrow> dict_key \<Rightarrow> charge_metadata \<Rightarrow> distortion_metadata" where
  "store_charge metadata defect_name charge entry =
     metadata\<lparr>md_defects :=
       map_option
         (AList.map_entry defect_name
            (\<lambda>d. d\<lparr>dm_charges := map_option (AList.update charge entry) (dm_charges d)\<rparr>))
         (md_defects metadata)\<rparr>"

text \<open>
  Lines 108-143 of \<^verbatim>\<open>_write_distortion_metadata\<close>: the body of the loop
  \<^verbatim>\<open>for charge in new_metadata["defects"][defect]["charges"]\<close>. The branch for a
  charge that is not in the old document reads
  \<^verbatim>\<open>old_metadata["defects"][defect]["charges"][charge]\<close> and so raises \<open>KeyError\<close>;
  the key of a \<open>KeyError\<close> for a charge is not kept, the handler does not read it.
  When the two entries are equal, the new \<^verbatim>\<open>"distortion_parameters"\<close> dictionary has
  the one key \<^verbatim>\<open>"bond_distortions"\<close>.
\<close>

definition merge_charge ::
  "distortion_metadata \<Rightarrow> string \<Rightarrow> dict_key \<Rightarrow> distortion_metadata \<Rightarrow>
   distortion_metadata \<times> py_error option \<times> event list" where
  "merge_charge old_metadata defect_name charge new_metadata =
     (case lookup_charges old_metadata defect_name of
        Inl e \<Rightarrow> (new_metadata, Some e, [])
      | Inr old_charges \<Rightarrow>
          (case map_of old_charges charge of
             None \<Rightarrow> (new_metadata, Some (KeyError ''charge''), [])
           | Some old_entry \<Rightarrow>
               (case lookup_charges new_metadata defect_name of
                  Inl e \<Rightarrow> (new_metadata, Some e, [])
                | Inr new_charges \<Rightarrow>
                    (case map_of new_charges charge of
                       None \<Rightarrow> (new_metadata, Some (KeyError ''charge''), [])
                     | Some new_entry \<Rightarrow>
                         if new_entry = old_entry then
                           (case cm_distortion_parameters new_entry of
                              None \<Rightarrow>
                                (new_metadata, Some (KeyError ''distortion_parameters''), [])
                            | Some new_parameters \<Rightarrow>
                                (case cdp_bond_distortions new_parameters of
                                   None \<Rightarrow>
                                     (new_metadata, Some (KeyError ''bond_distortions''), [])
                                 | Some new_bond_distortions \<Rightarrow>
                                     (case cm_distortion_parameters old_entry of
                                        None \<Rightarrow>
                                          (new_metadata,
                                           Some (KeyError ''distortion_parameters''), [])
                                      | Some old_parameters \<Rightarrow>
                                          (case cdp_bond_distortions old_parameters of
                                             None \<Rightarrow>
                                               (new_metadata,
                                                Some (KeyError ''bond_distortions''), [])
                                           | Some old_bond_distortions \<Rightarrow>
                                               (store_charge new_metadata defect_name charge
                                                  (new_entry\<lparr>cm_distortion_parameters := Some
                                                     \<lparr>cdp_bond_distortions = Some
                                                        (new_bond_distortions
                                                         @ old_bond_distortions),
                                                      cdp_rattle_stdev = None\<rparr>\<rparr>),
                                                None, [])))))
                         else
                           (new_metadata, None,
                            [Warned (MetadataConflict defect_name charge)])))))"

text \<open>
  Lines 104-147: the body of the loop \<^verbatim>\<open>for defect in old_metadata["defects"]\<close>.
\<close>

definition merge_defect ::
  "distortion_metadata \<Rightarrow> string \<Rightarrow> distortion_metadata \<Rightarrow>
   distortion_metadata \<times> py_error option \<times> event list" where
  "merge_defect old_metadata defect_name new_metadata =
     (case md_defects new_metadata of
        None \<Rightarrow> (new_metadata, Some (KeyError ''defects''), [])
      | Some new_defects \<Rightarrow>
          (case map_of new_defects defect_name of
             Some new_entry \<Rightarrow>
               (case dm_charges new_entry of
                  None \<Rightarrow> (new_metadata, Some (KeyError ''charges''), [])
                | Some new_charges \<Rightarrow>
                    for_loop_in_place (merge_charge old_metadata defect_name)
                      (map fst new_charges) new_metadata)
           | None \<Rightarrow>
               (case md_defects old_metadata of
                  None \<Rightarrow> (new_metadata, Some (KeyError ''defects''), [])
                | Some old_defects \<Rightarrow>
                    (case map_of old_defects defect_name of
                       None \<Rightarrow> (new_metadata, Some (KeyError defect_name), [])
                     | Some old_entry \<Rightarrow>
                         (new_metadata\<lparr>md_defects := Some
                            (AList.update defect_name old_entry new_defects)\<rparr>,
                          None, [])))))"

text \<open>
  \<^verbatim>\<open>_write_distortion_metadata(new_metadata, filename, output_path)\<close>, lines 60-154.
  The second argument is the document in the file at the path: \<open>None\<close> when there is
  no such file, otherwise the dictionary \<^verbatim>\<open>json.load\<close> returns for it. The result is
  the dictionary written to the path, the document of the file renamed with the time
  stamp (if any), and the warnings; file names, the time stamp and printing are left
  out. Every exception of the merge is a \<open>KeyError\<close>, which the handler catches.
\<close>

definition write_distortion_metadata ::
  "distortion_metadata \<Rightarrow> distortion_metadata option \<Rightarrow>
   distortion_metadata \<times> distortion_metadata option \<times> event list" where
  "write_distortion_metadata new_metadata existing_file =
     (case existing_file of
        None \<Rightarrow> (new_metadata, None, [])
      | Some old_metadata \<Rightarrow>
          (case md_defects old_metadata of
             None \<Rightarrow> (new_metadata, Some old_metadata, [Warned MetadataCombineProblem])
           | Some old_defects \<Rightarrow>
               (case for_loop_in_place (merge_defect old_metadata) (map fst old_defects)
                       new_metadata of
                  (merged, None, evs) \<Rightarrow> (merged, Some old_metadata, evs)
                | (merged, Some e, evs) \<Rightarrow>
                    (merged, Some old_metadata, evs @ [Warned MetadataCombineProblem]))))"

section \<open>Example inputs\<close>

text \<open>
  The CdTe inputs of the test-suite, cut down to two lattice sites: a cadmium vacancy
  (the cation of oxidation state +2 is removed), an entry whose kind is none of the four
  known ones, and the oxidation states \<^verbatim>\<open>{"Cd": +2, "Te": -2}\<close>.
\<close>

definition CdTe_oxidation_states :: oxidation_states where
  "CdTe_oxidation_states = [''Cd'' \<mapsto> 2, ''Te'' \<mapsto> - 2]"

definition two_site_structure :: pmg_structure where
  "two_site_structure =
     \<lparr>species = [''Cd'', ''Te''], distance_matrix = [[0, 281 / 100], [281 / 100, 0]]\<rparr>"

definition vac_1_Cd :: defect where
  "vac_1_Cd =
     \<lparr>name = ''vac_1_Cd'', defect_type = ''vacancy'', site_specie = ''Cd'',
      substituting_specie = None, substitution_specie = None, charges = [0, - 1, - 2],
      supercell_structure = two_site_structure, supercell_size = [1, 1, 1],
      bulk_supercell_site = [0, 0, 0], unique_site = [0, 0, 0], site_multiplicity = 1\<rparr>"

definition unknown_kind_defect :: defect where
  "unknown_kind_defect = vac_1_Cd\<lparr>name := ''cluster_1'', defect_type := ''cluster''\<rparr>"

text \<open>An antisite entry that lacks the key \<^verbatim>\<open>substituting_specie\<close>.\<close>

definition antisite_without_species :: defect where
  "antisite_without_species =
     vac_1_Cd\<lparr>name := ''as_1_Cd_on_Te'', defect_type := ''antisite'', site_specie := ''Te''\<rparr>"

text \<open>
  A structure of six sites whose fifteen pair distances are 2.1, 2.2, ..., 3.5
  angstrom, and an interstitial in it (the defect atom is the last site).
\<close>

definition six_site_structure :: pmg_structure where
  "six_site_structure =
     \<lparr>species = [''Cd'', ''Cd'', ''Te'', ''Te'', ''Te'', ''Cd''],
      distance_matrix =
        [[0, 21 / 10, 22 / 10, 23 / 10, 24 / 10, 25 / 10],
         [21 / 10, 0, 26 / 10, 27 / 10, 28 / 10, 29 / 10],
         [22 / 10, 26 / 10, 0, 30 / 10, 31 / 10, 32 / 10],
         [23 / 10, 27 / 10, 30 / 10, 0, 33 / 10, 34 / 10],
         [24 / 10, 28 / 10, 31 / 10, 33 / 10, 0, 35 / 10],
         [25 / 10, 29 / 10, 32 / 10, 34 / 10, 35 / 10, 0]]\<rparr>"

definition Int_Cd_1 :: defect where
  "Int_Cd_1 =
     \<lparr>name = ''Int_Cd_1'', defect_type = ''interstitial'', site_specie = ''Cd'',
      substituting_specie = None, substitution_specie = None, charges = [0, 1, 2],
      supercell_structure = six_site_structure, supercell_size = [1, 1, 1],
      bulk_supercell_site = [1 / 2, 1 / 2, 1 / 2], unique_site = [1 / 2, 1 / 2, 1 / 2],
      site_multiplicity = 1\<rparr>"

text \<open>
  Stand-ins for the two imported functions. \<open>distort_nearest\<close> leaves the structure as
  it is and reports the first site as the one bond-distorted neighbour.
  \<open>rattle_below\<close> succeeds, returning the structure unchanged, when \<^verbatim>\<open>d_min\<close> is at
  most the given bound and otherwise fails with the message of \<^verbatim>\<open>hiphive\<close>'s
  \<^verbatim>\<open>mc_rattle\<close>; \<open>rattle_raising\<close> always raises the given exception.
\<close>

definition distort_nearest :: "distort_args \<Rightarrow> py_error + bond_distorted" where
  "distort_nearest a =
     Inr \<lparr>distorted_structure = da_structure a,
          distorted_atoms = [(1, hd (species (da_structure a)))],
          defect_site_index = map_option int (da_site_index a)\<rparr>"

definition rattle_below :: "real \<Rightarrow> rattle_args \<Rightarrow> py_error + pmg_structure" where
  "rattle_below bound a =
     (if ra_d_min a \<le> bound then Inr (ra_structure a)
      else Inl (Exception ''Maximum attempts (5000) for atom 0''))"

definition rattle_raising :: "py_error \<Rightarrow> rattle_args \<Rightarrow> py_error + pmg_structure" where
  "rattle_raising e a = Inl e"

text \<open>
  A stand-in for the way \<^verbatim>\<open>_get_distortion_filename\<close> writes the percentage, for the
  three distortions -0.5, 0 and 0.5 of the examples.
\<close>

definition percentage_text :: "real \<Rightarrow> string" where
  "percentage_text x =
     (if x = - 1 / 2 then ''-50.0'' else if x = 0 then ''0.0''
      else if x = 1 / 2 then ''50.0'' else ''other'')"

definition rattle_unchanged :: "rattle_args \<Rightarrow> py_error + pmg_structure" where
  "rattle_unchanged a = Inr (ra_structure a)"

text \<open>
  The six-site structure with the first two sites moved to half an angstrom from each
  other, a cadmium interstitial in it with the single charge state 0, and the
  orchestrator that \<^verbatim>\<open>Distortions(defects_dict, oxidation_states,
  bond_distortions=[-0.5, 0.5])\<close> constructs for it. No site is hydrogen.
\<close>

definition six_site_close :: pmg_structure where
  "six_site_close =
     \<lparr>species = [''Cd'', ''Cd'', ''Te'', ''Te'', ''Te'', ''Cd''],
      distance_matrix =
        [[0, 1 / 2, 22 / 10, 23 / 10, 24 / 10, 25 / 10],
         [1 / 2, 0, 26 / 10, 27 / 10, 28 / 10, 29 / 10],
         [22 / 10, 26 / 10, 0, 30 / 10, 31 / 10, 32 / 10],
         [23 / 10, 27 / 10, 30 / 10, 0, 33 / 10, 34 / 10],
         [24 / 10, 28 / 10, 31 / 10, 33 / 10, 0, 35 / 10],
         [25 / 10, 29 / 10, 32 / 10, 34 / 10, 35 / 10, 0]]\<rparr>"

definition Int_Cd_close :: defect where
  "Int_Cd_close =
     \<lparr>name = ''Int_Cd_1'', defect_type = ''interstitial'', site_specie = ''Cd'',
      substituting_specie = None, substitution_specie = None, charges = [0],
      supercell_structure = six_site_close, supercell_size = [1, 1, 1],
      bulk_supercell_site = [1 / 2, 1 / 2, 1 / 2], unique_site = [1 / 2, 1 / 2, 1 / 2],
      site_multiplicity = 1\<rparr>"

definition CdTe_sweep :: Distortions where
  "CdTe_sweep =
     \<lparr>self_defects_dict = [(''interstitials'', [Int_Cd_close]), (''bulk'', [])],
      self_oxidation_states = CdTe_oxidation_states,
      self_distorted_elements = None,
      self_dict_number_electrons_user = None,
      self_stdev = 1 / 4,
      self_distortion_increment = None,
      self_bond_distortions = [- 1 / 2, 1 / 2],
      self_mc_rattle_kwargs = \<lparr>kw_active_atoms = None, kw_rest = [], kw_d_min = None\<rparr>,
      self_distortion_metadata =
        \<lparr>md_distortion_parameters =
           \<lparr>rp_distortion_increment = None, rp_bond_distortions = [- 1 / 2, 1 / 2],
            rp_rattle_stdev = 1 / 4\<rparr>,
         md_defects = Some []\<rparr>\<rparr>"

text \<open>
  Two metadata documents for the cadmium vacancy. The old one, as read from disk, records
  the charge states 0 and -1; the new one records the charge state 0 only, with the same
  entry. \<open>new_run_metadata_int_keys\<close> is the new document as the sweep builds it, with
  the integer 0 as key.
\<close>

definition charge_entry_2 :: charge_metadata where
  "charge_entry_2 =
     \<lparr>cm_num_nearest_neighbours = 2,
      cm_distorted_atoms = Some [(1, ''Te''), (2, ''Te'')],
      cm_distortion_parameters = Some
        \<lparr>cdp_bond_distortions = Some [- 3 / 10, 3 / 10], cdp_rattle_stdev = Some (1 / 4)\<rparr>\<rparr>"

definition charge_entry_1 :: charge_metadata where
  "charge_entry_1 =
     \<lparr>cm_num_nearest_neighbours = 1,
      cm_distorted_atoms = Some [(1, ''Te'')],
      cm_distortion_parameters = Some
        \<lparr>cdp_bond_distortions = Some [- 3 / 10, 3 / 10], cdp_rattle_stdev = Some (1 / 4)\<rparr>\<rparr>"

definition example_run_parameters :: run_parameters where
  "example_run_parameters =
     \<lparr>rp_distortion_increment = None, rp_bond_distortions = [- 3 / 10, 3 / 10],
      rp_rattle_stdev = 1 / 4\<rparr>"

definition old_file_metadata :: distortion_metadata where
  "old_file_metadata =
     \<lparr>md_distortion_parameters = example_run_parameters,
      md_defects = Some
        [(''vac_1_Cd'',
          \<lparr>dm_unique_site = [0, 0, 0],
           dm_charges = Some [(StrKey ''0'', charge_entry_2), (StrKey ''-1'', charge_entry_1)],
           dm_defect_site_index = None\<rparr>)]\<rparr>"

definition new_run_metadata :: distortion_metadata where
  "new_run_metadata =
     \<lparr>md_distortion_parameters = example_run_parameters,
      md_defects = Some
        [(''vac_1_Cd'',
          \<lparr>dm_unique_site = [0, 0, 0],
           dm_charges = Some [(StrKey ''0'', charge_entry_2)],
           dm_defect_site_index = None\<rparr>)]\<rparr>"

definition new_run_metadata_int_keys :: distortion_metadata where
  "new_run_metadata_int_keys =
     \<lparr>md_distortion_parameters = example_run_parameters,
      md_defects = Some
        [(''vac_1_Cd'',
          \<lparr>dm_unique_site = [0, 0, 0],
           dm_charges = Some [(IntKey 0, charge_entry_2)],
           dm_defect_site_index = None\<rparr>)]\<rparr>"

section \<open>Verified properties: electron counting\<close>

lemma defect_species_ValueError_iff:
  "(\<exists>msg. defect_species d = Inl (ValueError msg)) =
     (defect_type d \<notin> {''vacancy'', ''interstitial'', ''antisite'', ''substitution''})"
  by (simp add: defect_species_def split: option.split)

lemma defect_species_valid_kind:
  assumes "defect_type d \<in> {''vacancy'', ''interstitial'', ''antisite'', ''substitution''}"
  shows "(\<exists>p. defect_species d = Inr p) \<or> (\<exists>k. defect_species d = Inl (KeyError k))"
  using assms by (auto simp: defect_species_def split: option.split)

text \<open>
  Claim C3, as amended. For every integer electron count \<open>n\<close> the neighbour count is
  symmetric in the sign of \<open>n\<close>, is never negative, follows the octet rule (\<open>|n|\<close> when
  \<open>|n| \<le> 4\<close>, else \<open>|8 - |n||\<close>), and is at most 4 exactly when \<open>|n| \<le> 12\<close>; it maps
  0 to 0, 2 to 2, 4 to 4, 6 to 2 and 8 to 0.
\<close>

theorem calc_number_neighbours_octet_rule:
  "calc_number_neighbours n = calc_number_neighbours (- n)
   \<and> 0 \<le> calc_number_neighbours n
   \<and> calc_number_neighbours n = (if \<bar>n\<bar> \<le> 4 then \<bar>n\<bar> else \<bar>8 - \<bar>n\<bar>\<bar>)
   \<and> (calc_number_neighbours n \<le> 4) = (\<bar>n\<bar> \<le> 12)
   \<and> calc_number_neighbours 0 = 0 \<and> calc_number_neighbours 2 = 2
   \<and> calc_number_neighbours 4 = 4 \<and> calc_number_neighbours 6 = 2
   \<and> calc_number_neighbours 8 = 0"
  unfolding calc_number_neighbours_def Let_def by auto

theorem calc_number_neighbours_octet_rule_witness:
  "calc_number_neighbours (- 6) = 2 \<and> (calc_number_neighbours (- 6) \<le> 4) = (\<bar>- 6 :: int\<bar> \<le> 12)"
  using calc_number_neighbours_octet_rule [of "- 6"] by simp

text \<open>
  The claim C3 as it is written bounds the result by 4 for every integer. An electron
  count of 13 gives 5 neighbours.
\<close>

theorem calc_number_neighbours_range_counterexample:
  "calc_number_neighbours 13 = 5 \<and> \<not> calc_number_neighbours 13 \<le> 4"
  by (simp add: calc_number_neighbours_def)

text \<open>
  Claim C1, as amended. \<^verbatim>\<open>calc_number_electrons\<close> returns the negation of
  \<open>oxidation(substituting_species) - oxidation(site_species)\<close>, and the operative
  electron count of charge state \<open>q\<close> is that returned value plus \<open>q\<close>; the number of
  distorted neighbours is the octet rule of this sum. For the vacancy that removes a +2
  cation the returned value is 2: charge 0 gives operative count 2 and 2 neighbours,
  charge -1 gives operative count 1 and 1 neighbour.
\<close>

theorem operative_electron_count:
  assumes "defect_species d = Inr (site, substituting)"
    and "(ox(''Vac'' \<mapsto> 0)) substituting = Some a"
    and "(ox(''Vac'' \<mapsto> 0)) site = Some b"
  shows "fst (calc_number_electrons d ox) = Inr (- (a - b))
     \<and> num_electrons_charged_defect (- (a - b)) q = - (a - b) + q
     \<and> get_number_distorted_neighbours (name d) (- (a - b)) q
         = calc_number_neighbours (- (a - b) + q)
     \<and> fst (calc_number_electrons vac_1_Cd CdTe_oxidation_states) = Inr 2
     \<and> num_electrons_charged_defect 2 0 = 2
     \<and> get_number_distorted_neighbours ''vac_1_Cd'' 2 0 = 2
     \<and> num_electrons_charged_defect 2 (- 1) = 1
     \<and> get_number_distorted_neighbours ''vac_1_Cd'' 2 (- 1) = 1"
proof -
  have general: "fst (calc_number_electrons d ox) = Inr (- (a - b))"
    using assms by (simp add: calc_number_electrons_def Let_def)
  have example: "fst (calc_number_electrons vac_1_Cd CdTe_oxidation_states) = Inr 2"
    by (simp add: calc_number_electrons_def defect_species_def vac_1_Cd_def
        CdTe_oxidation_states_def Let_def)
  show ?thesis
    using general example
    by (simp add: num_electrons_charged_defect_def get_number_distorted_neighbours_def
        calc_number_neighbours_def)
qed

theorem operative_electron_count_witness:
  "defect_species vac_1_Cd = Inr (''Cd'', ''Vac'')
   \<and> fst (calc_number_electrons vac_1_Cd CdTe_oxidation_states) = Inr (- (0 - 2))
   \<and> get_number_distorted_neighbours (name vac_1_Cd) (- (0 - 2)) (- 2) = 0"
proof -
  have species: "defect_species vac_1_Cd = Inr (''Cd'', ''Vac'')"
    by (simp add: defect_species_def vac_1_Cd_def)
  have sub: "(CdTe_oxidation_states(''Vac'' \<mapsto> 0)) ''Vac'' = Some 0"
    by simp
  have site: "(CdTe_oxidation_states(''Vac'' \<mapsto> 0)) ''Cd'' = Some 2"
    by (simp add: CdTe_oxidation_states_def)
  show ?thesis
    using species operative_electron_count [OF species sub site, of "- 2"]
    by (simp add: calc_number_neighbours_def)
qed

text \<open>
  The claim C1 as it is written takes the operative count to be
  \<open>extra_electrons + q\<close> with \<open>extra_electrons = 0 - 2 = -2\<close>, hence -2 and -3 for the
  charges 0 and -1, and 3 neighbours for charge -1. The code adds the charge to the
  returned value 2.
\<close>

theorem operative_electron_count_counterexample:
  "fst (calc_number_electrons vac_1_Cd CdTe_oxidation_states) = Inr 2
   \<and> num_electrons_charged_defect 2 0 \<noteq> - 2
   \<and> num_electrons_charged_defect 2 (- 1) \<noteq> - 3
   \<and> get_number_distorted_neighbours ''vac_1_Cd'' 2 (- 1) \<noteq> 3"
  by (simp add: calc_number_electrons_def defect_species_def vac_1_Cd_def
      CdTe_oxidation_states_def Let_def num_electrons_charged_defect_def
      get_number_distorted_neighbours_def calc_number_neighbours_def)

text \<open>
  Claim C8, as amended. \<^verbatim>\<open>calc_number_electrons\<close> raises \<open>ValueError\<close> exactly when
  the defect kind is none of vacancy, interstitial, antisite and substitution. Whatever
  the outcome, the caller's oxidation-state mapping has gained the entry \<open>Vac \<mapsto> 0\<close>
  and is otherwise unchanged. For a valid kind the call returns an integer exactly when
  the species it looks up are keys of the defect entry and of the mapping, and raises
  \<open>KeyError\<close> otherwise: for the key of the defect entry that is absent, else for the
  substituting species when the mapping lacks it, else for the site species. The species
  looked up are the site species and \<open>Vac\<close> for a vacancy, \<open>Vac\<close> and the site species
  for an interstitial, and the site species and the substituting species for an antisite
  or a substitution.
\<close>

theorem calc_number_electrons_failure:
  "((\<exists>msg. fst (calc_number_electrons d ox) = Inl (ValueError msg)) =
      (defect_type d \<notin> {''vacancy'', ''interstitial'', ''antisite'', ''substitution''}))
   \<and> snd (calc_number_electrons d ox) = ox(''Vac'' \<mapsto> 0)
   \<and> ((\<exists>n. fst (calc_number_electrons d ox) = Inr n) =
        (\<exists>site substituting.
           defect_species d = Inr (site, substituting)
           \<and> substituting \<in> dom (ox(''Vac'' \<mapsto> 0)) \<and> site \<in> dom (ox(''Vac'' \<mapsto> 0))))
   \<and> (defect_type d \<in> {''vacancy'', ''interstitial'', ''antisite'', ''substitution''}
        \<and> \<not> (\<exists>site substituting.
                defect_species d = Inr (site, substituting)
                \<and> substituting \<in> dom (ox(''Vac'' \<mapsto> 0)) \<and> site \<in> dom (ox(''Vac'' \<mapsto> 0)))
       \<longrightarrow> (\<exists>k. fst (calc_number_electrons d ox) = Inl (KeyError k)))
   \<and> (\<forall>site substituting.
        defect_species d = Inr (site, substituting)
        \<and> substituting \<notin> dom (ox(''Vac'' \<mapsto> 0))
       \<longrightarrow> fst (calc_number_electrons d ox) = Inl (KeyError substituting))
   \<and> (\<forall>site substituting.
        defect_species d = Inr (site, substituting)
        \<and> substituting \<in> dom (ox(''Vac'' \<mapsto> 0)) \<and> site \<notin> dom (ox(''Vac'' \<mapsto> 0))
       \<longrightarrow> fst (calc_number_electrons d ox) = Inl (KeyError site))
   \<and> (\<forall>k. defect_species d = Inl (KeyError k)
       \<longrightarrow> fst (calc_number_electrons d ox) = Inl (KeyError k))
   \<and> (defect_type d = ''vacancy'' \<longrightarrow> defect_species d = Inr (site_specie d, ''Vac''))
   \<and> (defect_type d = ''interstitial'' \<longrightarrow> defect_species d = Inr (''Vac'', site_specie d))
   \<and> (defect_type d = ''antisite'' \<longrightarrow>
        defect_species d
          = (case substituting_specie d of
               None \<Rightarrow> Inl (KeyError ''substituting_specie'')
             | Some s \<Rightarrow> Inr (site_specie d, s)))
   \<and> (defect_type d = ''substitution'' \<longrightarrow>
        defect_species d
          = (case substitution_specie d of
               None \<Rightarrow> Inl (KeyError ''substitution_specie'')
             | Some s \<Rightarrow> Inr (site_specie d, s)))"
proof -
  let ?ox = "ox(''Vac'' \<mapsto> 0)"
  let ?present = "\<exists>site substituting.
           defect_species d = Inr (site, substituting)
           \<and> substituting \<in> dom ?ox \<and> site \<in> dom ?ox"
  have value_error: "(\<exists>msg. fst (calc_number_electrons d ox) = Inl (ValueError msg)) =
      (defect_type d \<notin> {''vacancy'', ''interstitial'', ''antisite'', ''substitution''})"
  proof -
    have "(\<exists>msg. fst (calc_number_electrons d ox) = Inl (ValueError msg)) =
          (\<exists>msg. defect_species d = Inl (ValueError msg))"
      by (auto simp: calc_number_electrons_def Let_def
          split: sum.splits option.splits prod.splits)
    then show ?thesis
      by (simp only: defect_species_ValueError_iff)
  qed
  have mapping: "snd (calc_number_electrons d ox) = ?ox"
    by (simp add: calc_number_electrons_def Let_def)
  have returns: "(\<exists>n. fst (calc_number_electrons d ox) = Inr n) = ?present"
    by (auto simp: calc_number_electrons_def Let_def
        split: sum.splits option.splits prod.splits)
  have key_error: "\<exists>k. fst (calc_number_electrons d ox) = Inl (KeyError k)"
    if kind: "defect_type d \<in> {''vacancy'', ''interstitial'', ''antisite'', ''substitution''}"
      and absent: "\<not> ?present"
  proof -
    from defect_species_valid_kind [OF kind]
    consider p where "defect_species d = Inr p" | k where "defect_species d = Inl (KeyError k)"
      by blast
    then show ?thesis
    proof cases
      case 1
      with absent show ?thesis
        by (cases p) (auto simp: calc_number_electrons_def Let_def split: option.splits)
    next
      case 2
      then show ?thesis
        by (simp add: calc_number_electrons_def Let_def)
    qed
  qed
  have no_substituting: "fst (calc_number_electrons d ox) = Inl (KeyError substituting)"
    if "defect_species d = Inr (site, substituting) \<and> substituting \<notin> dom ?ox"
    for site substituting
    using that by (auto simp: calc_number_electrons_def Let_def split: option.splits)
  have no_site: "fst (calc_number_electrons d ox) = Inl (KeyError site)"
    if "defect_species d = Inr (site, substituting)
        \<and> substituting \<in> dom ?ox \<and> site \<notin> dom ?ox"
    for site substituting
    using that by (auto simp: calc_number_electrons_def Let_def split: option.splits)
  have no_key: "fst (calc_number_electrons d ox) = Inl (KeyError k)"
    if "defect_species d = Inl (KeyError k)" for k
    using that by (simp add: calc_number_electrons_def Let_def)
  have vacancy: "defect_type d = ''vacancy'' \<longrightarrow> defect_species d = Inr (site_specie d, ''Vac'')"
    by (simp add: defect_species_def)
  have interstitial: "defect_type d = ''interstitial''
      \<longrightarrow> defect_species d = Inr (''Vac'', site_specie d)"
    by (simp add: defect_species_def)
  have antisite: "defect_type d = ''antisite'' \<longrightarrow>
        defect_species d
          = (case substituting_specie d of
               None \<Rightarrow> Inl (KeyError ''substituting_specie'')
             | Some s \<Rightarrow> Inr (site_specie d, s))"
    by (simp add: defect_species_def)
  have substitution: "defect_type d = ''substitution'' \<longrightarrow>
        defect_species d
          = (case substitution_specie d of
               None \<Rightarrow> Inl (KeyError ''substitution_specie'')
             | Some s \<Rightarrow> Inr (site_specie d, s))"
    by (simp add: defect_species_def)
  from value_error mapping returns key_error no_substituting no_site no_key vacancy
    interstitial antisite substitution
  show ?thesis by blast
qed

theorem calc_number_electrons_failure_witness:
  "defect_type vac_1_Cd \<in> {''vacancy'', ''interstitial'', ''antisite'', ''substitution''}
   \<and> defect_species vac_1_Cd = Inr (''Cd'', ''Vac'')
   \<and> ''Vac'' \<in> dom (CdTe_oxidation_states(''Vac'' \<mapsto> 0))
   \<and> ''Cd'' \<in> dom (CdTe_oxidation_states(''Vac'' \<mapsto> 0))
   \<and> (\<exists>n. fst (calc_number_electrons vac_1_Cd CdTe_oxidation_states) = Inr n)
   \<and> \<not> (\<exists>msg. fst (calc_number_electrons vac_1_Cd CdTe_oxidation_states)
                 = Inl (ValueError msg))
   \<and> ''Vac'' \<in> dom (Map.empty(''Vac'' \<mapsto> (0 :: int)))
   \<and> ''Cd'' \<notin> dom (Map.empty(''Vac'' \<mapsto> (0 :: int)))
   \<and> fst (calc_number_electrons vac_1_Cd Map.empty) = Inl (KeyError ''Cd'')
   \<and> \<not> (\<exists>n. fst (calc_number_electrons vac_1_Cd Map.empty) = Inr n)
   \<and> defect_type antisite_without_species = ''antisite''
   \<and> substituting_specie antisite_without_species = None
   \<and> fst (calc_number_electrons antisite_without_species CdTe_oxidation_states)
       = Inl (KeyError ''substituting_specie'')"
proof -
  have kind: "defect_type vac_1_Cd \<in> {''vacancy'', ''interstitial'', ''antisite'', ''substitution''}"
    "defect_type vac_1_Cd = ''vacancy''" "site_specie vac_1_Cd = ''Cd''"
    by (simp_all add: vac_1_Cd_def)
  have keys: "''Vac'' \<in> dom (CdTe_oxidation_states(''Vac'' \<mapsto> 0))"
    "''Cd'' \<in> dom (CdTe_oxidation_states(''Vac'' \<mapsto> 0))"
    by (simp_all add: CdTe_oxidation_states_def)
  have no_keys: "''Vac'' \<in> dom (Map.empty(''Vac'' \<mapsto> (0 :: int)))"
    "''Cd'' \<notin> dom (Map.empty(''Vac'' \<mapsto> (0 :: int)))"
    by simp_all
  have anti: "defect_type antisite_without_species = ''antisite''"
    "substituting_specie antisite_without_species = None"
    by (simp_all add: antisite_without_species_def vac_1_Cd_def)
  note full = calc_number_electrons_failure [of vac_1_Cd CdTe_oxidation_states]
  note empty = calc_number_electrons_failure [of vac_1_Cd Map.empty]
  note antisite = calc_number_electrons_failure [of antisite_without_species
      CdTe_oxidation_states]
  from full kind have species: "defect_species vac_1_Cd = Inr (''Cd'', ''Vac'')"
    by simp
  from full species keys have returns:
    "\<exists>n. fst (calc_number_electrons vac_1_Cd CdTe_oxidation_states) = Inr n"
    by blast
  from full kind have no_value_error:
    "\<not> (\<exists>msg. fst (calc_number_electrons vac_1_Cd CdTe_oxidation_states)
           = Inl (ValueError msg))"
    by blast
  from empty kind have "defect_species vac_1_Cd = Inr (''Cd'', ''Vac'')"
    by simp
  with empty no_keys have raises:
    "fst (calc_number_electrons vac_1_Cd Map.empty) = Inl (KeyError ''Cd'')"
    by blast
  then have no_return: "\<not> (\<exists>n. fst (calc_number_electrons vac_1_Cd Map.empty) = Inr n)"
    by simp
  from antisite anti have
    "defect_species antisite_without_species = Inl (KeyError ''substituting_specie'')"
    by simp
  with antisite have missing:
    "fst (calc_number_electrons antisite_without_species CdTe_oxidation_states)
       = Inl (KeyError ''substituting_specie'')"
    by blast
  from kind(1) species keys returns no_value_error no_keys raises no_return anti missing
  show ?thesis by simp
qed

text \<open>
  The claim C8 as it is written lets every valid kind return normally and lets the
  failing call change no state. A vacancy whose site species has no oxidation state
  raises \<open>KeyError\<close>, and the call that raises \<open>ValueError\<close> has already stored
  \<open>Vac \<mapsto> 0\<close> in a mapping that had no such key.
\<close>

theorem calc_number_electrons_failure_counterexample:
  "defect_type vac_1_Cd = ''vacancy''
   \<and> fst (calc_number_electrons vac_1_Cd Map.empty) = Inl (KeyError ''Cd'')
   \<and> (\<exists>msg. fst (calc_number_electrons unknown_kind_defect Map.empty) = Inl (ValueError msg))
   \<and> Map.empty ''Vac'' = (None :: int option)
   \<and> snd (calc_number_electrons unknown_kind_defect Map.empty) ''Vac'' = Some 0"
  by (simp add: calc_number_electrons_def defect_species_def vac_1_Cd_def
      unknown_kind_defect_def Let_def)

text \<open>
  Claim C10. Every call of \<^verbatim>\<open>calc_number_electrons\<close>, whether it returns or raises,
  leaves the caller's oxidation-state mapping with the key \<open>Vac\<close> bound to 0 and every
  other key as it was.
\<close>

theorem calc_number_electrons_inserts_Vac:
  "snd (calc_number_electrons d ox) = ox(''Vac'' \<mapsto> 0)
   \<and> snd (calc_number_electrons d ox) ''Vac'' = Some 0"
  by (simp add: calc_number_electrons_def Let_def)

section \<open>Verified properties: the minimum distance of the rattle\<close>

lemma sort_nonneg_split:
  fixes xs :: "real list"
  assumes "\<forall>x\<in>set xs. 0 \<le> x"
  shows "sort xs = replicate (length (filter (\<lambda>x. x = 0) xs)) 0 @ sort (filter (\<lambda>x. x \<noteq> 0) xs)"
proof (rule properties_for_sort)
  have zeros: "replicate (length (filter (\<lambda>x. x = 0) xs)) 0 = filter (\<lambda>x. x = 0) xs"
    using replicate_length_filter [of 0 xs] by (simp add: eq_commute)
  show "mset (replicate (length (filter (\<lambda>x. x = 0) xs)) 0 @ sort (filter (\<lambda>x. x \<noteq> 0) xs)) = mset xs"
    unfolding zeros by simp
  show "sorted (replicate (length (filter (\<lambda>x. x = 0) xs)) 0 @ sort (filter (\<lambda>x. x \<noteq> 0) xs))"
    using assms by (auto simp: sorted_append)
qed

lemma sort_nth_skip_zeros:
  fixes xs :: "real list"
  assumes "\<forall>x\<in>set xs. 0 \<le> x" and "length (filter (\<lambda>x. x = 0) xs) = n"
  shows "sort xs ! (n + k) = sort (filter (\<lambda>x. x \<noteq> 0) xs) ! k"
  using sort_nonneg_split [OF assms(1)] assms(2) by (simp add: nth_append)

lemma sorted_nth0_Min:
  fixes ys :: "real list"
  assumes "sorted ys" and "ys \<noteq> []"
  shows "ys ! 0 = Min (set ys)"
proof (cases ys)
  case Nil
  with assms show ?thesis by simp
next
  case (Cons y zs)
  with assms have "\<forall>z\<in>set ys. y \<le> z" by auto
  with Cons show ?thesis by (auto intro!: Min_eqI [symmetric])
qed

lemma sort_nth_zeros_Min:
  fixes xs :: "real list"
  assumes "\<forall>x\<in>set xs. 0 \<le> x" and "length (filter (\<lambda>x. x = 0) xs) = n" and "n < length xs"
  shows "sort xs ! n = Min (set xs - {0})"
proof -
  let ?nz = "filter (\<lambda>x. x \<noteq> 0) xs"
  have "length xs = length (filter (\<lambda>x. x = 0) xs) + length ?nz"
    using sum_length_filter_compl [of "\<lambda>x. x = 0" xs] by simp
  with assms have "?nz \<noteq> []" by auto
  then have ne: "sort ?nz \<noteq> []"
    using length_sort [of "\<lambda>x. x" ?nz] by (metis length_0_conv)
  have "sort xs ! n = sort ?nz ! 0"
    using sort_nth_skip_zeros [OF assms(1,2), of 0] by simp
  also have "\<dots> = Min (set (sort ?nz))"
    by (rule sorted_nth0_Min) (use ne in simp_all)
  also have "set (sort ?nz) = set xs - {0}" by auto
  finally show ?thesis .
qed

text \<open>
  Claim C7, as amended. When \<^verbatim>\<open>d_min\<close> is not supplied (\<^verbatim>\<open>None\<close> or zero) it is
  0.8 times the entry at index \<open>number of sites + 20\<close> of the sorted, flattened
  distance matrix of the unperturbed supercell; in a matrix whose only zero entries are the
  diagonal ones this is the entry found after skipping the 20 smallest nonzero entries
  (ten bond lengths, each counted twice). Whenever that value is below 1 it is discarded
  with a warning that names the detected bond length and replaced by 2.25.
\<close>

theorem default_d_min_heuristic:
  assumes "d_min = None \<or> d_min = Some 0"
    and "length (species s) + 20 < length (concat (distance_matrix s))"
    and "x = sort (concat (distance_matrix s)) ! (length (species s) + 20)"
  shows "default_d_min d_min s =
           (if (8 / 10) * x < 1 then (Inr (225 / 100), [Warned (BondLengthTooSmall x)])
            else (Inr ((8 / 10) * x), []))
       \<and> ((\<forall>y\<in>set (concat (distance_matrix s)). 0 \<le> y)
           \<and> length (filter (\<lambda>y. y = 0) (concat (distance_matrix s))) = length (species s)
          \<longrightarrow> x = sort (filter (\<lambda>y. y \<noteq> 0) (concat (distance_matrix s))) ! 20)"
proof (intro conjI impI)
  show "default_d_min d_min s =
           (if (8 / 10) * x < 1 then (Inr (225 / 100), [Warned (BondLengthTooSmall x)])
            else (Inr ((8 / 10) * x), []))"
    using assms by (auto simp: default_d_min_def Let_def)
next
  assume wf: "(\<forall>y\<in>set (concat (distance_matrix s)). 0 \<le> y)
           \<and> length (filter (\<lambda>y. y = 0) (concat (distance_matrix s))) = length (species s)"
  then show "x = sort (filter (\<lambda>y. y \<noteq> 0) (concat (distance_matrix s))) ! 20"
    using sort_nth_skip_zeros [of "concat (distance_matrix s)" "length (species s)" 20] assms(3)
    by simp
qed

theorem default_d_min_heuristic_witness:
  "length (species six_site_structure) + 20 < length (concat (distance_matrix six_site_structure))
   \<and> list_all (\<lambda>y. 0 \<le> y) (concat (distance_matrix six_site_structure))
   \<and> length (filter (\<lambda>y. y = 0) (concat (distance_matrix six_site_structure)))
       = length (species six_site_structure)
   \<and> sort (filter (\<lambda>y. y \<noteq> 0) (concat (distance_matrix six_site_structure))) ! 20 = 31 / 10
   \<and> default_d_min None six_site_structure = (Inr (248 / 100), [])"
proof -
  have len: "length (species six_site_structure) + 20
             < length (concat (distance_matrix six_site_structure))"
    by (simp add: six_site_structure_def)
  have nonneg: "\<forall>y\<in>set (concat (distance_matrix six_site_structure)). 0 \<le> y"
    by (simp add: six_site_structure_def)
  have zeros: "length (filter (\<lambda>y. y = 0) (concat (distance_matrix six_site_structure)))
       = length (species six_site_structure)"
    by (simp add: six_site_structure_def)
  have x: "(31 / 10 :: real) = sort (concat (distance_matrix six_site_structure))
                 ! (length (species six_site_structure) + 20)"
    by (simp add: six_site_structure_def)
  from default_d_min_heuristic [OF disjI1 [OF refl] len x] nonneg zeros len
  show ?thesis by (simp add: list_all_iff)
qed

text \<open>
  The claim C7 as it is written skips twice the number of sites. With six sites the code
  reads the 21st nonzero entry (3.1, giving 2.48), not the 13th (2.7, giving 2.16).
\<close>

theorem default_d_min_skip_counterexample:
  "fst (default_d_min None six_site_structure) = Inr (248 / 100)
   \<and> (8 / 10) * sort (filter (\<lambda>y. y \<noteq> 0) (concat (distance_matrix six_site_structure)))
                  ! (2 * length (species six_site_structure)) = 216 / 100
   \<and> fst (default_d_min None six_site_structure)
       \<noteq> Inr ((8 / 10) * sort (filter (\<lambda>y. y \<noteq> 0) (concat (distance_matrix six_site_structure)))
                  ! (2 * length (species six_site_structure)))"
  by (simp add: default_d_min_def six_site_structure_def Let_def)

section \<open>Verified properties: the retry of the rattle\<close>

text \<open>
  Claim C6. Let \<^verbatim>\<open>distort\<close> have returned and \<^verbatim>\<open>d_min\<close> be the supplied or
  computed value \<open>d\<close>. If the first call of \<^verbatim>\<open>rattle\<close> returns, its structure is the
  result and \<^verbatim>\<open>rattle\<close> was called once. If it raises an exception whose message
  does not contain \<^verbatim>\<open>attempts\<close>, that exception propagates and \<^verbatim>\<open>rattle\<close> was
  called once. If it raises an exception whose message contains \<^verbatim>\<open>attempts\<close>,
  \<^verbatim>\<open>rattle\<close> is called exactly once more, with the same arguments except
  \<^verbatim>\<open>d_min\<close>, which is the entry at index \<open>number of sites\<close> of the sorted flattened
  distance matrix of the bond-distorted structure plus twice \<^verbatim>\<open>stdev\<close>; when that
  call returns, its structure is the result and a warning naming \<open>d\<close> and the relaxed
  value is emitted; when it raises, its exception propagates. In a matrix whose only
  zero entries are the diagonal ones the entry read is the smallest nonzero pairwise
  distance. The index is within the array for every structure of at least two sites.
\<close>

theorem rattle_retry_once:
  assumes dist: "distort (distort_call_args defect_dict nn f el v) = Inr bd"
    and dmin: "default_d_min d_min (supercell_structure defect_dict) = (Inr d, evs)"
    and act: "active = (case active_atoms of
                          None \<Rightarrow> default_active_atoms defect_dict bd | Some a \<Rightarrow> a)"
    and first: "first = \<lparr>ra_structure = distorted_structure bd, ra_stdev = stdev,
                         ra_d_min = d, ra_active_atoms = Some active, ra_kwargs = kwargs\<rparr>"
    and flat: "flat = concat (distance_matrix (distorted_structure bd))"
    and n: "n = length (species (distorted_structure bd))"
    and reduced: "reduced = sort flat ! n + 2 * stdev"
    and second: "second = first\<lparr>ra_d_min := reduced\<rparr>"
    and run: "run = apply_rattle_bond_distortions distort rattle defect_dict nn f stdev d_min
                      active_atoms el v kwargs"
  shows
    "(\<forall>r. rattle first = Inr r \<longrightarrow>
        run = (Inr (bd\<lparr>distorted_structure := r\<rparr>), evs @ [RattleCalled first]))
   \<and> (\<forall>e. rattle first = Inl e \<and> \<not> str_contains ''attempts'' (py_str e) \<longrightarrow>
        run = (Inl e, evs @ [RattleCalled first]))
   \<and> (\<forall>e r. rattle first = Inl e \<and> str_contains ''attempts'' (py_str e) \<and> n < length flat
          \<and> rattle second = Inr r \<longrightarrow>
        run = (Inr (bd\<lparr>distorted_structure := r\<rparr>),
               evs @ [RattleCalled first, RattleCalled second, Warned (RattleRetry d reduced)]))
   \<and> (\<forall>e e2. rattle first = Inl e \<and> str_contains ''attempts'' (py_str e) \<and> n < length flat
          \<and> rattle second = Inl e2 \<longrightarrow>
        run = (Inl e2, evs @ [RattleCalled first, RattleCalled second]))
   \<and> ((\<forall>y\<in>set flat. 0 \<le> y) \<and> length (filter (\<lambda>y. y = 0) flat) = n \<and> n < length flat \<longrightarrow>
        reduced = Min (set flat - {0}) + 2 * stdev)"
proof (intro conjI allI impI)
  fix r assume "rattle first = Inr r"
  then show "run = (Inr (bd\<lparr>distorted_structure := r\<rparr>), evs @ [RattleCalled first])"
    using dist dmin act first run
    by (simp add: apply_rattle_bond_distortions_def Let_def)
next
  fix e assume "rattle first = Inl e \<and> \<not> str_contains ''attempts'' (py_str e)"
  then show "run = (Inl e, evs @ [RattleCalled first])"
    using dist dmin act first run
    by (simp add: apply_rattle_bond_distortions_def Let_def)
next
  fix e r
  assume "rattle first = Inl e \<and> str_contains ''attempts'' (py_str e) \<and> n < length flat
          \<and> rattle second = Inr r"
  then show "run = (Inr (bd\<lparr>distorted_structure := r\<rparr>),
               evs @ [RattleCalled first, RattleCalled second, Warned (RattleRetry d reduced)])"
    using dist dmin act first flat n reduced second run
    by (simp add: apply_rattle_bond_distortions_def Let_def)
next
  fix e e2
  assume "rattle first = Inl e \<and> str_contains ''attempts'' (py_str e) \<and> n < length flat
          \<and> rattle second = Inl e2"
  then show "run = (Inl e2, evs @ [RattleCalled first, RattleCalled second])"
    using dist dmin act first flat n reduced second run
    by (simp add: apply_rattle_bond_distortions_def Let_def)
next
  assume "(\<forall>y\<in>set flat. 0 \<le> y) \<and> length (filter (\<lambda>y. y = 0) flat) = n \<and> n < length flat"
  then show "reduced = Min (set flat - {0}) + 2 * stdev"
    using sort_nth_zeros_Min [of flat n] reduced by simp
qed

theorem rattle_retry_once_witness:
  "apply_rattle_bond_distortions distort_nearest (rattle_below 4) vac_1_Cd 2 (1 / 2) (1 / 4)
       (Some 5) None None False []
     = (Inr \<lparr>distorted_structure = two_site_structure, distorted_atoms = [(1, ''Cd'')],
              defect_site_index = None\<rparr>,
        [RattleCalled \<lparr>ra_structure = two_site_structure, ra_stdev = 1 / 4, ra_d_min = 5,
                        ra_active_atoms = Some [1], ra_kwargs = []\<rparr>,
         RattleCalled \<lparr>ra_structure = two_site_structure, ra_stdev = 1 / 4,
                        ra_d_min = 331 / 100, ra_active_atoms = Some [1], ra_kwargs = []\<rparr>,
         Warned (RattleRetry 5 (331 / 100))])
   \<and> apply_rattle_bond_distortions distort_nearest
       (rattle_raising (Exception ''Maximum attempts (5000) for atom 0'')) vac_1_Cd 2 (1 / 2)
       (1 / 4) (Some 5) None None False []
     = (Inl (Exception ''Maximum attempts (5000) for atom 0''),
        [RattleCalled \<lparr>ra_structure = two_site_structure, ra_stdev = 1 / 4, ra_d_min = 5,
                        ra_active_atoms = Some [1], ra_kwargs = []\<rparr>,
         RattleCalled \<lparr>ra_structure = two_site_structure, ra_stdev = 1 / 4,
                        ra_d_min = 331 / 100, ra_active_atoms = Some [1], ra_kwargs = []\<rparr>])
   \<and> apply_rattle_bond_distortions distort_nearest
       (rattle_raising (ValueError ''stdev must be positive'')) vac_1_Cd 2 (1 / 2)
       (1 / 4) (Some 5) None None False []
     = (Inl (ValueError ''stdev must be positive''),
        [RattleCalled \<lparr>ra_structure = two_site_structure, ra_stdev = 1 / 4, ra_d_min = 5,
                        ra_active_atoms = Some [1], ra_kwargs = []\<rparr>])
   \<and> apply_rattle_bond_distortions distort_nearest (rattle_below 10) vac_1_Cd 2 (1 / 2) (1 / 4)
       (Some 5) None None False []
     = (Inr \<lparr>distorted_structure = two_site_structure, distorted_atoms = [(1, ''Cd'')],
              defect_site_index = None\<rparr>,
        [RattleCalled \<lparr>ra_structure = two_site_structure, ra_stdev = 1 / 4, ra_d_min = 5,
                        ra_active_atoms = Some [1], ra_kwargs = []\<rparr>])
   \<and> (331 / 100 :: real) = Min (set (concat (distance_matrix two_site_structure)) - {0}) + 2 * (1 / 4)"
proof -
  define bd where "bd = \<lparr>distorted_structure = two_site_structure,
      distorted_atoms = [(1 :: int, ''Cd'')], defect_site_index = (None :: int option)\<rparr>"
  define first where "first = \<lparr>ra_structure = two_site_structure, ra_stdev = 1 / 4,
      ra_d_min = 5, ra_active_atoms = Some [1 :: int], ra_kwargs = ([] :: kwargs)\<rparr>"
  define second where "second = first\<lparr>ra_d_min := 331 / 100\<rparr>"
  have dist: "distort_nearest (distort_call_args vac_1_Cd 2 (1 / 2) None False) = Inr bd"
    by (simp add: distort_nearest_def distort_call_args_def vac_1_Cd_def two_site_structure_def
        bd_def)
  have dmin: "default_d_min (Some 5) (supercell_structure vac_1_Cd) = (Inr 5, [])"
    by (simp add: default_d_min_def)
  have act: "[1] = (case (None :: int list option) of
                      None \<Rightarrow> default_active_atoms vac_1_Cd bd | Some a \<Rightarrow> a)"
    unfolding bd_def by code_simp
  have flat: "[0, 281 / 100, 281 / 100, 0] = concat (distance_matrix (distorted_structure bd))"
    by (simp add: bd_def two_site_structure_def)
  have n: "2 = length (species (distorted_structure bd))"
    by (simp add: bd_def two_site_structure_def)
  have reduced: "(331 / 100 :: real) = sort [0, 281 / 100, 281 / 100, 0] ! 2 + 2 * (1 / 4)"
    by simp
  have first: "first = \<lparr>ra_structure = distorted_structure bd, ra_stdev = 1 / 4,
      ra_d_min = 5, ra_active_atoms = Some [1], ra_kwargs = []\<rparr>"
    by (simp add: first_def bd_def)
  note retry = rattle_retry_once [where distort = distort_nearest,
      OF dist dmin act first flat n reduced second_def refl]
  have msg: "str_contains ''attempts'' (py_str (Exception ''Maximum attempts (5000) for atom 0''))"
    by simp
  have no_msg: "\<not> str_contains ''attempts'' (py_str (ValueError ''stdev must be positive''))"
    by simp
  have c1: "rattle_below 4 first = Inl (Exception ''Maximum attempts (5000) for atom 0'')"
    "rattle_below 4 second = Inr two_site_structure"
    by (simp_all add: rattle_below_def first_def second_def)
  have c4: "rattle_below 10 first = Inr two_site_structure"
    by (simp add: rattle_below_def first_def)
  have same: "bd\<lparr>distorted_structure := two_site_structure\<rparr> = bd"
    by (simp add: bd_def)
  have wf: "(\<forall>y\<in>set [0, 281 / 100, 281 / 100, 0 :: real]. 0 \<le> y)
       \<and> length (filter (\<lambda>y. y = 0) [0, 281 / 100, 281 / 100, 0 :: real]) = 2
       \<and> 2 < length [0, 281 / 100, 281 / 100, 0 :: real]"
    by simp
  have a: "apply_rattle_bond_distortions distort_nearest (rattle_below 4) vac_1_Cd 2 (1 / 2)
             (1 / 4) (Some 5) None None False []
           = (Inr bd, [RattleCalled first, RattleCalled second, Warned (RattleRetry 5 (331 / 100))])"
    using retry [of "rattle_below 4"] c1 msg same by simp
  have b: "apply_rattle_bond_distortions distort_nearest
             (rattle_raising (Exception ''Maximum attempts (5000) for atom 0'')) vac_1_Cd 2
             (1 / 2) (1 / 4) (Some 5) None None False []
           = (Inl (Exception ''Maximum attempts (5000) for atom 0''),
              [RattleCalled first, RattleCalled second])"
    using retry [of "rattle_raising (Exception ''Maximum attempts (5000) for atom 0'')"] msg
    by (simp add: rattle_raising_def)
  have c: "apply_rattle_bond_distortions distort_nearest
             (rattle_raising (ValueError ''stdev must be positive'')) vac_1_Cd 2
             (1 / 2) (1 / 4) (Some 5) None None False []
           = (Inl (ValueError ''stdev must be positive''), [RattleCalled first])"
    using retry [of "rattle_raising (ValueError ''stdev must be positive'')"] no_msg
    by (simp add: rattle_raising_def)
  have d: "apply_rattle_bond_distortions distort_nearest (rattle_below 10) vac_1_Cd 2 (1 / 2)
             (1 / 4) (Some 5) None None False []
           = (Inr bd, [RattleCalled first])"
    using retry [of "rattle_below 10"] c4 same by simp
  have e: "(331 / 100 :: real)
           = Min (set (concat (distance_matrix two_site_structure)) - {0}) + 2 * (1 / 4)"
    using retry [of "rattle_below 4"] wf flat by (simp add: bd_def)
  show ?thesis
    using a b c d e by (simp add: bd_def first_def second_def)
qed

section \<open>Verified properties: merging the metadata\<close>

text \<open>
  What the merge does keep. A charge state that both documents record with different
  entries keeps the entry of the new document and a warning names the defect and the
  charge state; a defect that only the old document records is copied into the new one.
\<close>

lemma merge_charge_conflict:
  assumes "lookup_charges old_metadata defect_name = Inr old_charges"
    and "map_of old_charges charge = Some old_entry"
    and "lookup_charges new_metadata defect_name = Inr new_charges"
    and "map_of new_charges charge = Some new_entry"
    and "new_entry \<noteq> old_entry"
  shows "merge_charge old_metadata defect_name charge new_metadata
           = (new_metadata, None, [Warned (MetadataConflict defect_name charge)])"
  using assms by (simp add: merge_charge_def)

lemma merge_defect_old_only:
  assumes "md_defects new_metadata = Some new_defects"
    and "map_of new_defects defect_name = None"
    and "md_defects old_metadata = Some old_defects"
    and "map_of old_defects defect_name = Some old_entry"
  shows "merge_defect old_metadata defect_name new_metadata
           = (new_metadata\<lparr>md_defects := Some (AList.update defect_name old_entry new_defects)\<rparr>,
              None, [])"
  using assms by (simp add: merge_defect_def)

text \<open>
  Claim C2 fails on the code. The old document records the charge states 0 and -1 of a
  defect, the new one the charge state 0 with the same entry. The loop of lines 108-143
  runs over the charge states of the new document only, so the entry of charge state -1
  is in neither branch: the document written has the charge state 0 alone (its bond
  distortions concatenated), and no warning is emitted. When the new document has the
  integer key 0 that the sweep stores, the key is not found among the string keys of
  the old document, the branch meant for a charge state of the old document alone
  raises \<open>KeyError\<close>, and the new document is written as it is, again without the
  entry of charge state -1.
\<close>

theorem write_distortion_metadata_drops_old_charge:
  "lookup_charges old_file_metadata ''vac_1_Cd''
     = Inr [(StrKey ''0'', charge_entry_2), (StrKey ''-1'', charge_entry_1)]
   \<and> lookup_charges new_run_metadata ''vac_1_Cd'' = Inr [(StrKey ''0'', charge_entry_2)]
   \<and> write_distortion_metadata new_run_metadata (Some old_file_metadata)
     = (\<lparr>md_distortion_parameters = example_run_parameters,
         md_defects = Some
           [(''vac_1_Cd'',
             \<lparr>dm_unique_site = [0, 0, 0],
              dm_charges = Some
                [(StrKey ''0'',
                  \<lparr>cm_num_nearest_neighbours = 2,
                   cm_distorted_atoms = Some [(1, ''Te''), (2, ''Te'')],
                   cm_distortion_parameters = Some
                     \<lparr>cdp_bond_distortions = Some [- 3 / 10, 3 / 10, - 3 / 10, 3 / 10],
                      cdp_rattle_stdev = None\<rparr>\<rparr>)],
              dm_defect_site_index = None\<rparr>)]\<rparr>,
        Some old_file_metadata, [])
   \<and> write_distortion_metadata new_run_metadata_int_keys (Some old_file_metadata)
     = (new_run_metadata_int_keys, Some old_file_metadata, [Warned MetadataCombineProblem])"
  by (simp add: write_distortion_metadata_def merge_defect_def merge_charge_def
      lookup_charges_def store_charge_def old_file_metadata_def new_run_metadata_def
      new_run_metadata_int_keys_def charge_entry_2_def charge_entry_1_def)

section \<open>Verified properties: the distortions of one charged defect\<close>

lemma update_new_key:
  "k \<notin> fst ` set al \<Longrightarrow> AList.update k v al = al @ [(k, v)]"
  by (induction al) auto

lemma snb_distortion_step_result:
  assumes "snb_distortion_step distort rattle filename d nnn stdev d_min el v kw x acc
             = (Inr res, evs)"
  shows "snb_Unperturbed res = snb_Unperturbed acc
       \<and> (\<exists>s. snb_distortions res
                = AList.update (filename (py_round x 3 + 0)) s (snb_distortions acc))"
  using assms
  by (auto simp: snb_distortion_step_def Let_def split: prod.splits sum.splits)

lemma snb_loop_keys:
  assumes "for_loop (snb_distortion_step distort rattle filename d nnn stdev d_min el v kw)
             bds acc = (Inr res, evs)"
  shows "snb_Unperturbed res = snb_Unperturbed acc
       \<and> fst ` set (snb_distortions res)
           = fst ` set (snb_distortions acc) \<union> (\<lambda>x. filename (py_round x 3 + 0)) ` set bds
       \<and> (distinct (map fst (snb_distortions acc)) \<longrightarrow> distinct (map fst (snb_distortions res)))
       \<and> (distinct (map (\<lambda>x. filename (py_round x 3 + 0)) bds)
            \<and> (\<lambda>x. filename (py_round x 3 + 0)) ` set bds \<inter> fst ` set (snb_distortions acc) = {}
           \<longrightarrow> map fst (snb_distortions res)
                = map fst (snb_distortions acc) @ map (\<lambda>x. filename (py_round x 3 + 0)) bds)"
  using assms
proof (induction bds arbitrary: acc evs)
  case Nil
  then show ?case by simp
next
  case (Cons x bds)
  let ?step = "snb_distortion_step distort rattle filename d nnn stdev d_min el v kw"
  from Cons.prems obtain acc' evs1 evs2 where
    step: "?step x acc = (Inr acc', evs1)" and
    rest: "for_loop ?step bds acc' = (Inr res, evs2)"
    by (auto split: prod.splits sum.splits)
  from snb_distortion_step_result [OF step] obtain s where
    unp: "snb_Unperturbed acc' = snb_Unperturbed acc" and
    upd: "snb_distortions acc'
            = AList.update (filename (py_round x 3 + 0)) s (snb_distortions acc)"
    by blast
  note ih = Cons.IH [OF rest]
  have keys: "fst ` set (snb_distortions acc')
                = insert (filename (py_round x 3 + 0)) (fst ` set (snb_distortions acc))"
    by (simp add: upd dom_update)
  show ?case
  proof (intro conjI impI)
    show "snb_Unperturbed res = snb_Unperturbed acc" using ih unp by simp
    show "fst ` set (snb_distortions res)
           = fst ` set (snb_distortions acc)
             \<union> (\<lambda>x. filename (py_round x 3 + 0)) ` set (x # bds)"
      using ih keys by auto
    show "distinct (map fst (snb_distortions res))"
      if "distinct (map fst (snb_distortions acc))"
      using ih that by (simp add: upd distinct_update)
    show "map fst (snb_distortions res)
            = map fst (snb_distortions acc) @ map (\<lambda>x. filename (py_round x 3 + 0)) (x # bds)"
      if h: "distinct (map (\<lambda>x. filename (py_round x 3 + 0)) (x # bds))
            \<and> (\<lambda>x. filename (py_round x 3 + 0)) ` set (x # bds)
                \<inter> fst ` set (snb_distortions acc) = {}"
    proof -
      from h have new: "filename (py_round x 3 + 0) \<notin> fst ` set (snb_distortions acc)"
        by auto
      then have acc': "snb_distortions acc'
                         = snb_distortions acc @ [(filename (py_round x 3 + 0), s)]"
        by (simp add: upd update_new_key)
      from h have "distinct (map (\<lambda>x. filename (py_round x 3 + 0)) bds)
            \<and> (\<lambda>x. filename (py_round x 3 + 0)) ` set bds
                \<inter> fst ` set (snb_distortions acc') = {}"
        by (auto simp: keys)
      with ih have "map fst (snb_distortions res)
                = map fst (snb_distortions acc') @ map (\<lambda>x. filename (py_round x 3 + 0)) bds"
        by blast
      then show ?thesis by (simp add: acc')
    qed
  qed
qed

lemma for_loop_total:
  assumes "\<forall>x s. \<exists>s' evs. body x s = (Inr s', evs)"
  shows "\<exists>s' evs. for_loop body xs s = (Inr s', evs)"
proof (induction xs arbitrary: s)
  case Nil
  then show ?case by simp
next
  case (Cons x xs)
  from assms obtain s1 evs1 where "body x s = (Inr s1, evs1)" by blast
  moreover from Cons.IH obtain s2 evs2 where "for_loop body xs s1 = (Inr s2, evs2)" by blast
  ultimately show ?case by simp
qed

lemma apply_rattle_bond_distortions_total:
  assumes "\<forall>a. \<exists>b. distort a = Inr b" and "\<forall>a. \<exists>s. rattle a = Inr s"
    and "default_d_min d_min (supercell_structure d) = (Inr dm, evs0)"
  shows "\<exists>b evs. apply_rattle_bond_distortions distort rattle d nnn f stdev d_min act el v kw
                   = (Inr b, evs)"
proof -
  from assms(1) obtain b where
    b: "distort (distort_call_args d nnn f el v) = Inr b" by blast
  define call where "call = \<lparr>ra_structure = distorted_structure b, ra_stdev = stdev,
      ra_d_min = dm,
      ra_active_atoms = Some (case act of None \<Rightarrow> default_active_atoms d b | Some a \<Rightarrow> a),
      ra_kwargs = kw\<rparr>"
  from assms(2) obtain s where "rattle call = Inr s" by blast
  with b assms(3) show ?thesis
    by (simp add: apply_rattle_bond_distortions_def Let_def call_def)
qed

text \<open>
  The calls of the example interstitial, evaluated. The six sites of its supercell
  include the defect atom, which is the last site.
\<close>

lemma close_d_min: "default_d_min None six_site_close = (Inr (248 / 100), [])"
  by (simp add: default_d_min_def six_site_close_def Let_def)

lemma close_active:
  "default_active_atoms Int_Cd_close
     \<lparr>distorted_structure = six_site_close, distorted_atoms = [(1, ''Cd'')],
      defect_site_index = Some 6\<rparr> = [1, 2, 3, 4]"
  by code_simp

lemma close_rattle:
  "apply_rattle_bond_distortions distort_nearest rattle_unchanged Int_Cd_close 2 f (1 / 4)
     None None None v []
   = (Inr \<lparr>distorted_structure = six_site_close, distorted_atoms = [(1, ''Cd'')],
           defect_site_index = Some 6\<rparr>,
      [RattleCalled \<lparr>ra_structure = six_site_close, ra_stdev = 1 / 4, ra_d_min = 248 / 100,
                     ra_active_atoms = Some [1, 2, 3, 4], ra_kwargs = []\<rparr>])"
proof -
  have args: "distort_nearest (distort_call_args Int_Cd_close 2 f None v)
       = Inr \<lparr>distorted_structure = six_site_close, distorted_atoms = [(1, ''Cd'')],
           defect_site_index = Some 6\<rparr>"
    by (simp add: distort_nearest_def distort_call_args_def Int_Cd_close_def six_site_close_def)
  have s: "supercell_structure Int_Cd_close = six_site_close"
    by (simp add: Int_Cd_close_def)
  show ?thesis
    by (simp add: apply_rattle_bond_distortions_def args s close_d_min close_active
        rattle_unchanged_def Let_def)
qed

lemma close_labels:
  "get_distortion_filename percentage_text (py_round (- (1 / 2)) 3) = ''Bond_Distortion_-50.0%''"
  "get_distortion_filename percentage_text (py_round (1 / 2) 3) = ''Bond_Distortion_50.0%''"
  "get_distortion_filename percentage_text (py_round (1251 / 2500) 3)
     = ''Bond_Distortion_50.0%''"
  by (simp_all add: get_distortion_filename_def percentage_text_def py_round_def
      round_half_even_def Let_def)

lemma close_fields:
  "name Int_Cd_close = ''Int_Cd_1''" "charges Int_Cd_close = [0]"
  "defect_type Int_Cd_close = ''interstitial''"
  "supercell_structure Int_Cd_close = six_site_close"
  "bulk_supercell_site Int_Cd_close = [1 / 2, 1 / 2, 1 / 2]"
  "unique_site Int_Cd_close = [1 / 2, 1 / 2, 1 / 2]"
  "site_multiplicity Int_Cd_close = 1" "supercell_size Int_Cd_close = [1, 1, 1]"
  "substitution_specie Int_Cd_close = None"
  by (simp_all add: Int_Cd_close_def)

lemma close_snb:
  "apply_snb_distortions distort_nearest rattle_unchanged
     (get_distortion_filename percentage_text) Int_Cd_close 2 [- (1 / 2), 1 / 2] (1 / 4) None
     None v \<lparr>kw_active_atoms = None, kw_rest = []\<rparr>
   = (Inr \<lparr>snb_Unperturbed = Int_Cd_close,
           snb_distortions = [(''Bond_Distortion_-50.0%'', six_site_close),
                              (''Bond_Distortion_50.0%'', six_site_close)],
           snb_distortion_parameters =
             Some \<lparr>dp_unique_site = [1 / 2, 1 / 2, 1 / 2], dp_num_distorted_neighbours = 2,
                   dp_distorted_atoms = Some [(1, ''Cd'')], dp_defect_site_index = Some 6\<rparr>\<rparr>,
      [RattleCalled \<lparr>ra_structure = six_site_close, ra_stdev = 1 / 4, ra_d_min = 248 / 100,
                     ra_active_atoms = Some [1, 2, 3, 4], ra_kwargs = []\<rparr>,
       RattleCalled \<lparr>ra_structure = six_site_close, ra_stdev = 1 / 4, ra_d_min = 248 / 100,
                     ra_active_atoms = Some [1, 2, 3, 4], ra_kwargs = []\<rparr>])"
  unfolding apply_snb_distortions_def Let_def
  by (simp add: snb_distortion_step_def close_rattle close_labels truthy_int_def close_fields
      Let_def)

lemma close_snb_same_label:
  "apply_snb_distortions distort_nearest rattle_unchanged
     (get_distortion_filename percentage_text) Int_Cd_close 2 [1 / 2, 5004 / 10000] (1 / 4)
     None None v \<lparr>kw_active_atoms = None, kw_rest = []\<rparr>
   = (Inr \<lparr>snb_Unperturbed = Int_Cd_close,
           snb_distortions = [(''Bond_Distortion_50.0%'', six_site_close)],
           snb_distortion_parameters =
             Some \<lparr>dp_unique_site = [1 / 2, 1 / 2, 1 / 2], dp_num_distorted_neighbours = 2,
                   dp_distorted_atoms = Some [(1, ''Cd'')], dp_defect_site_index = Some 6\<rparr>\<rparr>,
      [RattleCalled \<lparr>ra_structure = six_site_close, ra_stdev = 1 / 4, ra_d_min = 248 / 100,
                     ra_active_atoms = Some [1, 2, 3, 4], ra_kwargs = []\<rparr>,
       RattleCalled \<lparr>ra_structure = six_site_close, ra_stdev = 1 / 4, ra_d_min = 248 / 100,
                     ra_active_atoms = Some [1, 2, 3, 4], ra_kwargs = []\<rparr>])"
  unfolding apply_snb_distortions_def Let_def
  by (simp add: snb_distortion_step_def close_rattle close_labels truthy_int_def close_fields
      Let_def)

lemma close_snb_rattled:
  "apply_snb_distortions distort_nearest rattle_unchanged
     (get_distortion_filename percentage_text) Int_Cd_close 0 [- (1 / 2), 1 / 2] (1 / 4) None
     None v \<lparr>kw_active_atoms = None, kw_rest = []\<rparr>
   = (Inr \<lparr>snb_Unperturbed = Int_Cd_close,
           snb_distortions = [(''Rattled'', six_site_close)],
           snb_distortion_parameters =
             Some \<lparr>dp_unique_site = [1 / 2, 1 / 2, 1 / 2], dp_num_distorted_neighbours = 0,
                   dp_distorted_atoms = None, dp_defect_site_index = Some 6\<rparr>\<rparr>,
      [RattleCalled \<lparr>ra_structure = six_site_close, ra_stdev = 1 / 4, ra_d_min = 248 / 100,
                     ra_active_atoms = None, ra_kwargs = []\<rparr>])"
proof -
  have n: "int (length (species six_site_close)) = 6"
    by (simp add: six_site_close_def)
  show ?thesis
    by (simp add: apply_snb_distortions_def Let_def close_fields close_d_min
        rattle_unchanged_def truthy_int_def n)
qed
text \<open>
  Claim C9, as amended. Whenever \<^verbatim>\<open>apply_snb_distortions\<close> returns, its result holds
  the defect entry it was given (and so the original defect supercell) under
  \<^verbatim>\<open>"Unperturbed"\<close>. With a neighbour count of 0 the distortions mapping is the single
  entry \<^verbatim>\<open>"Rattled"\<close>: the result of the one call of \<^verbatim>\<open>rattle\<close>, which receives the
  whole defect supercell structure and the caller's \<^verbatim>\<open>active_atoms\<close> (none when the
  caller gave none), so no atom is taken out, the defect atom of an interstitial or
  substitution included. With a neighbour count other than 0 the keys of the distortions
  mapping are exactly the labels \<^verbatim>\<open>Bond_Distortion_<percentage>%\<close> of the configured
  fractions rounded to three decimals, none of them \<^verbatim>\<open>"Rattled"\<close>, with one entry per
  distinct label: fractions with the same label share one entry, and when the labels are
  distinct there is one entry per fraction, in the order of the fractions. The function
  returns whenever \<^verbatim>\<open>distort\<close> and \<^verbatim>\<open>rattle\<close> do not raise and \<^verbatim>\<open>d_min\<close> can be
  determined.
\<close>

theorem apply_snb_distortions_entries:
  assumes label: "label = (\<lambda>x. get_distortion_filename pct (py_round x 3 + 0))"
    and run: "run = apply_snb_distortions distort rattle (get_distortion_filename pct) d nnn bds
                      stdev d_min el v kw"
  shows
    "(\<forall>res evs. run = (Inr res, evs) \<longrightarrow>
        snb_Unperturbed res = d
      \<and> (nnn = 0 \<longrightarrow>
           (\<exists>dm evs0 s.
               default_d_min d_min (supercell_structure d) = (Inr dm, evs0)
             \<and> rattle \<lparr>ra_structure = supercell_structure d, ra_stdev = stdev,
                       ra_d_min = dm, ra_active_atoms = kw_active_atoms kw,
                       ra_kwargs = kw_rest kw\<rparr> = Inr s
             \<and> snb_distortions res = [(''Rattled'', s)]
             \<and> evs = evs0 @ [RattleCalled
                     \<lparr>ra_structure = supercell_structure d, ra_stdev = stdev,
                      ra_d_min = dm, ra_active_atoms = kw_active_atoms kw,
                      ra_kwargs = kw_rest kw\<rparr>]))
      \<and> (nnn \<noteq> 0 \<longrightarrow>
           fst ` set (snb_distortions res) = label ` set bds
         \<and> distinct (map fst (snb_distortions res))
         \<and> length (snb_distortions res) = card (label ` set bds)
         \<and> ''Rattled'' \<notin> fst ` set (snb_distortions res)
         \<and> (distinct (map label bds) \<longrightarrow> map fst (snb_distortions res) = map label bds)))
   \<and> ((\<forall>a. \<exists>b. distort a = Inr b) \<and> (\<forall>a. \<exists>s. rattle a = Inr s)
        \<and> (\<exists>dm evs0. default_d_min d_min (supercell_structure d) = (Inr dm, evs0)) \<longrightarrow>
       (\<exists>res evs. run = (Inr res, evs)))"
proof (intro conjI allI impI)
  fix res evs assume r: "run = (Inr res, evs)"
  show "snb_Unperturbed res = d"
  proof (cases "nnn = 0")
    case True
    with r run show ?thesis
      by (auto simp: apply_snb_distortions_def Let_def split: prod.splits sum.splits)
  next
    case False
    with r run have
      "for_loop (snb_distortion_step distort rattle (get_distortion_filename pct) d nnn stdev
                 d_min el v kw) bds
         \<lparr>snb_Unperturbed = d, snb_distortions = [], snb_distortion_parameters = None\<rparr>
       = (Inr res, evs)"
      by (simp add: apply_snb_distortions_def Let_def)
    from snb_loop_keys [OF this] show ?thesis by simp
  qed
next
  fix res evs assume r: "run = (Inr res, evs)" and z: "nnn = 0"
  with run show "\<exists>dm evs0 s.
               default_d_min d_min (supercell_structure d) = (Inr dm, evs0)
             \<and> rattle \<lparr>ra_structure = supercell_structure d, ra_stdev = stdev,
                       ra_d_min = dm, ra_active_atoms = kw_active_atoms kw,
                       ra_kwargs = kw_rest kw\<rparr> = Inr s
             \<and> snb_distortions res = [(''Rattled'', s)]
             \<and> evs = evs0 @ [RattleCalled
                     \<lparr>ra_structure = supercell_structure d, ra_stdev = stdev,
                      ra_d_min = dm, ra_active_atoms = kw_active_atoms kw,
                      ra_kwargs = kw_rest kw\<rparr>]"
    by (auto simp: apply_snb_distortions_def Let_def split: prod.splits sum.splits)
next
  fix res evs assume r: "run = (Inr res, evs)" and nz: "nnn \<noteq> 0"
  let ?init = "\<lparr>snb_Unperturbed = d, snb_distortions = [], snb_distortion_parameters = None\<rparr>"
  from r nz run have loop:
    "for_loop (snb_distortion_step distort rattle (get_distortion_filename pct) d nnn stdev
                 d_min el v kw) bds ?init = (Inr res, evs)"
    by (simp add: apply_snb_distortions_def Let_def)
  note keys = snb_loop_keys [OF loop]
  show k: "fst ` set (snb_distortions res) = label ` set bds"
    using keys label by simp
  show dist: "distinct (map fst (snb_distortions res))"
    using keys by simp
  have "length (snb_distortions res) = card (set (map fst (snb_distortions res)))"
    using distinct_card [OF dist] by simp
  then show "length (snb_distortions res) = card (label ` set bds)"
    using k by simp
  show "''Rattled'' \<notin> fst ` set (snb_distortions res)"
    unfolding k label by (auto simp: get_distortion_filename_def)
  show "map fst (snb_distortions res) = map label bds" if "distinct (map label bds)"
    using keys that label by simp
next
  assume tot: "(\<forall>a. \<exists>b. distort a = Inr b) \<and> (\<forall>a. \<exists>s. rattle a = Inr s)
        \<and> (\<exists>dm evs0. default_d_min d_min (supercell_structure d) = (Inr dm, evs0))"
  then obtain dm evs0 where dm: "default_d_min d_min (supercell_structure d) = (Inr dm, evs0)"
    by blast
  show "\<exists>res evs. run = (Inr res, evs)"
  proof (cases "nnn = 0")
    case True
    from tot obtain s where
      "rattle \<lparr>ra_structure = supercell_structure d, ra_stdev = stdev,
               ra_d_min = dm, ra_active_atoms = kw_active_atoms kw,
               ra_kwargs = kw_rest kw\<rparr> = Inr s"
      by blast
    with True dm run show ?thesis
      by (simp add: apply_snb_distortions_def Let_def)
  next
    case False
    have "\<forall>x s. \<exists>s' evs. snb_distortion_step distort rattle (get_distortion_filename pct) d
                    nnn stdev d_min el v kw x s = (Inr s', evs)"
    proof (intro allI)
      fix x s
      from apply_rattle_bond_distortions_total [of distort rattle d_min d dm evs0 nnn
          "1 + (py_round x 3 + 0)" stdev "kw_active_atoms kw" el v "kw_rest kw"] tot dm
      obtain b evs where
        "apply_rattle_bond_distortions distort rattle d nnn (1 + (py_round x 3 + 0)) stdev
           d_min (kw_active_atoms kw) el v (kw_rest kw) = (Inr b, evs)"
        by blast
      then show "\<exists>s' evs. snb_distortion_step distort rattle (get_distortion_filename pct) d
                    nnn stdev d_min el v kw x s = (Inr s', evs)"
        by (simp add: snb_distortion_step_def Let_def)
    qed
    from for_loop_total [OF this] False run show ?thesis
      by (simp add: apply_snb_distortions_def Let_def)
  qed
qed

lemma example_labels:
  "map (\<lambda>x. get_distortion_filename percentage_text (py_round x 3 + 0)) [- 1 / 2, 0, 1 / 2]
     = [''Bond_Distortion_-50.0%'', ''Bond_Distortion_0.0%'', ''Bond_Distortion_50.0%'']"
  by (simp add: get_distortion_filename_def percentage_text_def py_round_def
      round_half_even_def Let_def)

text \<open>
  The theorem at the example interstitial, whose defect atom is the sixth site of its
  supercell: three distinct fractions give three entries in their order, and with no
  neighbour to distort the one call of \<^verbatim>\<open>rattle\<close> receives the six sites, with no set of
  active atoms when the caller gave none and with the caller's set otherwise.
\<close>

theorem apply_snb_distortions_entries_witness:
  "(\<exists>res evs.
      apply_snb_distortions distort_nearest rattle_unchanged
        (get_distortion_filename percentage_text) Int_Cd_close 2 [- 1 / 2, 0, 1 / 2] (1 / 4)
        None None False \<lparr>kw_active_atoms = None, kw_rest = []\<rparr> = (Inr res, evs)
      \<and> snb_Unperturbed res = Int_Cd_close
      \<and> length (snb_distortions res) = 3
      \<and> map fst (snb_distortions res)
          = [''Bond_Distortion_-50.0%'', ''Bond_Distortion_0.0%'', ''Bond_Distortion_50.0%''])
   \<and> (\<exists>res.
      apply_snb_distortions distort_nearest rattle_unchanged
        (get_distortion_filename percentage_text) Int_Cd_close 0 [- 1 / 2, 0, 1 / 2] (1 / 4)
        None None False \<lparr>kw_active_atoms = None, kw_rest = []\<rparr>
        = (Inr res, [RattleCalled \<lparr>ra_structure = six_site_close, ra_stdev = 1 / 4,
                       ra_d_min = 248 / 100, ra_active_atoms = None, ra_kwargs = []\<rparr>])
      \<and> snb_Unperturbed res = Int_Cd_close
      \<and> snb_distortions res = [(''Rattled'', six_site_close)])
   \<and> (\<exists>res.
      apply_snb_distortions distort_nearest rattle_unchanged
        (get_distortion_filename percentage_text) Int_Cd_close 0 [- 1 / 2, 0, 1 / 2] (1 / 4)
        None None False \<lparr>kw_active_atoms = Some [1, 2], kw_rest = []\<rparr>
        = (Inr res, [RattleCalled \<lparr>ra_structure = six_site_close, ra_stdev = 1 / 4,
                       ra_d_min = 248 / 100, ra_active_atoms = Some [1, 2], ra_kwargs = []\<rparr>])
      \<and> snb_Unperturbed res = Int_Cd_close
      \<and> snb_distortions res = [(''Rattled'', six_site_close)])"
proof -
  let ?label = "\<lambda>x. get_distortion_filename percentage_text (py_round x 3 + 0)"
  let ?kw = "\<lparr>kw_active_atoms = None, kw_rest = []\<rparr> :: snb_kwargs"
  let ?kw' = "\<lparr>kw_active_atoms = Some [1, 2], kw_rest = []\<rparr> :: snb_kwargs"
  have dmin: "default_d_min None (supercell_structure Int_Cd_close) = (Inr (248 / 100), [])"
    by (simp add: close_fields close_d_min)
  have total: "(\<forall>a. \<exists>b. distort_nearest a = Inr b) \<and> (\<forall>a. \<exists>s. rattle_unchanged a = Inr s)
        \<and> (\<exists>dm evs0. default_d_min None (supercell_structure Int_Cd_close) = (Inr dm, evs0))"
  proof (intro conjI allI)
    show "\<exists>dm evs0. default_d_min None (supercell_structure Int_Cd_close) = (Inr dm, evs0)"
      using dmin by blast
  qed (simp_all add: distort_nearest_def rattle_unchanged_def)
  have labels: "distinct (map ?label [- 1 / 2, 0, 1 / 2])"
    unfolding example_labels by simp
  note two = apply_snb_distortions_entries [where pct = percentage_text
      and distort = distort_nearest and rattle = rattle_unchanged and d = Int_Cd_close
      and nnn = 2 and bds = "[- 1 / 2, 0, 1 / 2]" and stdev = "1 / 4" and d_min = None
      and el = None and v = False and kw = ?kw, OF refl refl]
  note zero = apply_snb_distortions_entries [where pct = percentage_text
      and distort = distort_nearest and rattle = rattle_unchanged and d = Int_Cd_close
      and nnn = 0 and bds = "[- 1 / 2, 0, 1 / 2]" and stdev = "1 / 4" and d_min = None
      and el = None and v = False and kw = ?kw, OF refl refl]
  note zero' = apply_snb_distortions_entries [where pct = percentage_text
      and distort = distort_nearest and rattle = rattle_unchanged and d = Int_Cd_close
      and nnn = 0 and bds = "[- 1 / 2, 0, 1 / 2]" and stdev = "1 / 4" and d_min = None
      and el = None and v = False and kw = ?kw', OF refl refl]
  from two total obtain res2 evs2 where
    r2: "apply_snb_distortions distort_nearest rattle_unchanged
           (get_distortion_filename percentage_text) Int_Cd_close 2 [- 1 / 2, 0, 1 / 2] (1 / 4)
           None None False ?kw = (Inr res2, evs2)"
    by blast
  with two labels have
    p2: "snb_Unperturbed res2 = Int_Cd_close \<and> map fst (snb_distortions res2)
           = map ?label [- 1 / 2, 0, 1 / 2]"
    by simp
  note p2' = p2 [unfolded example_labels]
  from p2' have "length (map fst (snb_distortions res2)) = 3" by simp
  then have l2: "length (snb_distortions res2) = 3" by simp
  from r2 p2' l2 have two_case: "\<exists>res evs.
      apply_snb_distortions distort_nearest rattle_unchanged
        (get_distortion_filename percentage_text) Int_Cd_close 2 [- 1 / 2, 0, 1 / 2] (1 / 4)
        None None False ?kw = (Inr res, evs)
      \<and> snb_Unperturbed res = Int_Cd_close
      \<and> length (snb_distortions res) = 3
      \<and> map fst (snb_distortions res)
          = [''Bond_Distortion_-50.0%'', ''Bond_Distortion_0.0%'', ''Bond_Distortion_50.0%'']"
    by (intro exI [of _ res2] exI [of _ evs2]) simp
  from zero total obtain res0 evs0 where
    r0: "apply_snb_distortions distort_nearest rattle_unchanged
           (get_distortion_filename percentage_text) Int_Cd_close 0 [- 1 / 2, 0, 1 / 2] (1 / 4)
           None None False ?kw = (Inr res0, evs0)"
    by blast
  with zero have
    p0: "snb_Unperturbed res0 = Int_Cd_close
         \<and> (\<exists>dm evs' s.
               default_d_min None (supercell_structure Int_Cd_close) = (Inr dm, evs')
             \<and> rattle_unchanged \<lparr>ra_structure = supercell_structure Int_Cd_close,
                 ra_stdev = 1 / 4, ra_d_min = dm, ra_active_atoms = None, ra_kwargs = []\<rparr>
               = Inr s
             \<and> snb_distortions res0 = [(''Rattled'', s)]
             \<and> evs0 = evs' @ [RattleCalled \<lparr>ra_structure = supercell_structure Int_Cd_close,
                 ra_stdev = 1 / 4, ra_d_min = dm, ra_active_atoms = None, ra_kwargs = []\<rparr>])"
    by simp
  then have q0: "snb_distortions res0 = [(''Rattled'', six_site_close)]
      \<and> evs0 = [RattleCalled \<lparr>ra_structure = six_site_close, ra_stdev = 1 / 4,
                   ra_d_min = 248 / 100, ra_active_atoms = None, ra_kwargs = []\<rparr>]"
    by (auto simp: rattle_unchanged_def close_d_min close_fields)
  with r0 p0 have zero_case: "\<exists>res.
      apply_snb_distortions distort_nearest rattle_unchanged
        (get_distortion_filename percentage_text) Int_Cd_close 0 [- 1 / 2, 0, 1 / 2] (1 / 4)
        None None False ?kw
        = (Inr res, [RattleCalled \<lparr>ra_structure = six_site_close, ra_stdev = 1 / 4,
                       ra_d_min = 248 / 100, ra_active_atoms = None, ra_kwargs = []\<rparr>])
      \<and> snb_Unperturbed res = Int_Cd_close
      \<and> snb_distortions res = [(''Rattled'', six_site_close)]"
    by (intro exI [of _ res0]) simp
  from zero' total obtain res1 evs1 where
    r1: "apply_snb_distortions distort_nearest rattle_unchanged
           (get_distortion_filename percentage_text) Int_Cd_close 0 [- 1 / 2, 0, 1 / 2] (1 / 4)
           None None False ?kw' = (Inr res1, evs1)"
    by blast
  with zero' have
    p1: "snb_Unperturbed res1 = Int_Cd_close
         \<and> (\<exists>dm evs' s.
               default_d_min None (supercell_structure Int_Cd_close) = (Inr dm, evs')
             \<and> rattle_unchanged \<lparr>ra_structure = supercell_structure Int_Cd_close,
                 ra_stdev = 1 / 4, ra_d_min = dm, ra_active_atoms = Some [1, 2],
                 ra_kwargs = []\<rparr> = Inr s
             \<and> snb_distortions res1 = [(''Rattled'', s)]
             \<and> evs1 = evs' @ [RattleCalled \<lparr>ra_structure = supercell_structure Int_Cd_close,
                 ra_stdev = 1 / 4, ra_d_min = dm, ra_active_atoms = Some [1, 2],
                 ra_kwargs = []\<rparr>])"
    by simp
  then have q1: "snb_distortions res1 = [(''Rattled'', six_site_close)]
      \<and> evs1 = [RattleCalled \<lparr>ra_structure = six_site_close, ra_stdev = 1 / 4,
                   ra_d_min = 248 / 100, ra_active_atoms = Some [1, 2], ra_kwargs = []\<rparr>]"
    by (auto simp: rattle_unchanged_def close_d_min close_fields)
  with r1 p1 have active_case: "\<exists>res.
      apply_snb_distortions distort_nearest rattle_unchanged
        (get_distortion_filename percentage_text) Int_Cd_close 0 [- 1 / 2, 0, 1 / 2] (1 / 4)
        None None False ?kw'
        = (Inr res, [RattleCalled \<lparr>ra_structure = six_site_close, ra_stdev = 1 / 4,
                       ra_d_min = 248 / 100, ra_active_atoms = Some [1, 2], ra_kwargs = []\<rparr>])
      \<and> snb_Unperturbed res = Int_Cd_close
      \<and> snb_distortions res = [(''Rattled'', six_site_close)]"
    by (intro exI [of _ res1]) simp
  from two_case zero_case active_case show ?thesis by (intro conjI)
qed

text \<open>
  Claim C9 as first worded does not hold. For an interstitial with no neighbour to
  distort, the one call of \<^verbatim>\<open>rattle\<close> receives all six sites of the supercell, the
  defect atom (the sixth site) among them, and no set of active atoms that would leave it
  out. And the two fractions 0.5 and 0.5004, which round to one label, give one
  bond-distortion entry, not two.
\<close>

theorem apply_snb_distortions_rattled_counterexample:
  "apply_snb_distortions distort_nearest rattle_unchanged
     (get_distortion_filename percentage_text) Int_Cd_close 0 [- (1 / 2), 1 / 2] (1 / 4) None
     None False \<lparr>kw_active_atoms = None, kw_rest = []\<rparr>
   = (Inr \<lparr>snb_Unperturbed = Int_Cd_close,
           snb_distortions = [(''Rattled'', six_site_close)],
           snb_distortion_parameters =
             Some \<lparr>dp_unique_site = [1 / 2, 1 / 2, 1 / 2], dp_num_distorted_neighbours = 0,
                   dp_distorted_atoms = None, dp_defect_site_index = Some 6\<rparr>\<rparr>,
      [RattleCalled \<lparr>ra_structure = six_site_close, ra_stdev = 1 / 4, ra_d_min = 248 / 100,
                     ra_active_atoms = None, ra_kwargs = []\<rparr>])
   \<and> defect_type Int_Cd_close = ''interstitial''
   \<and> supercell_structure Int_Cd_close = six_site_close
   \<and> length (species six_site_close) = 6
   \<and> (\<exists>res evs.
        apply_snb_distortions distort_nearest rattle_unchanged
          (get_distortion_filename percentage_text) Int_Cd_close 2 [1 / 2, 5004 / 10000]
          (1 / 4) None None False \<lparr>kw_active_atoms = None, kw_rest = []\<rparr> = (Inr res, evs)
      \<and> snb_distortions res = [(''Bond_Distortion_50.0%'', six_site_close)]
      \<and> length (snb_distortions res) = 1)
   \<and> length [1 / 2, 5004 / 10000 :: real] = 2"
proof (intro conjI)
  show "\<exists>res evs.
        apply_snb_distortions distort_nearest rattle_unchanged
          (get_distortion_filename percentage_text) Int_Cd_close 2 [1 / 2, 5004 / 10000]
          (1 / 4) None None False \<lparr>kw_active_atoms = None, kw_rest = []\<rparr> = (Inr res, evs)
      \<and> snb_distortions res = [(''Bond_Distortion_50.0%'', six_site_close)]
      \<and> length (snb_distortions res) = 1"
    unfolding close_snb_same_label by simp
qed (simp_all add: close_snb_rattled close_fields six_site_close_def)

section \<open>Verified properties: the constructor\<close>

lemma Distortions_init_stores_oxidation_states:
  "(\<forall>obj. Distortions_init dd (Some ox) u inc bd sd el kw = Inr obj \<longrightarrow>
         self_oxidation_states obj = ox \<and> self_mc_rattle_kwargs obj = kw)
   \<and> (inc \<noteq> 0 \<longrightarrow> (\<exists>obj. Distortions_init dd (Some ox) u inc bd sd el kw = Inr obj))"
  by (auto simp: Distortions_init_def np_arange_from_0_def Let_def
      split: sum.splits option.splits prod.splits if_splits)

text \<open>
  Claim C5 fails on the code. The claim, and the tests of the constructor, have a call
  that supplies no oxidation-state mapping return an object with a guessed mapping and
  print the guess. The parameter \<^verbatim>\<open>oxidation_states\<close> of \<^verbatim>\<open>Distortions.__init__\<close> has no
  default value and the body only stores it: whatever the other arguments are, a call
  without the mapping raises \<open>TypeError\<close>, so no object, no mapping and no message
  result. The call of the tests, one vacancy and nothing else, is the example; the same
  call with the mapping returns an object that stores the mapping it was given.
\<close>

theorem Distortions_init_without_oxidation_states:
  "(\<forall>dd u inc bd sd el kw. \<exists>msg.
      Distortions_init dd None u inc bd sd el kw = Inl (TypeError msg))
   \<and> Distortions_init [(''vacancies'', [vac_1_Cd])] None None (1 / 10) None (1 / 4) None
        \<lparr>kw_active_atoms = None, kw_rest = [], kw_d_min = None\<rparr>
       = Inl (TypeError ''__init__() missing 1 required positional argument: oxidation_states'')
   \<and> (\<exists>obj. Distortions_init [(''vacancies'', [vac_1_Cd])] (Some CdTe_oxidation_states) None
               (1 / 10) None (1 / 4) None
               \<lparr>kw_active_atoms = None, kw_rest = [], kw_d_min = None\<rparr> = Inr obj
            \<and> self_oxidation_states obj = CdTe_oxidation_states)"
proof (intro conjI allI)
  show "\<exists>obj. Distortions_init [(''vacancies'', [vac_1_Cd])] (Some CdTe_oxidation_states) None
               (1 / 10) None (1 / 4) None
               \<lparr>kw_active_atoms = None, kw_rest = [], kw_d_min = None\<rparr> = Inr obj
            \<and> self_oxidation_states obj = CdTe_oxidation_states"
    by (simp add: Distortions_init_def np_arange_from_0_def Let_def)
qed (simp_all add: Distortions_init_def)

section \<open>Verified properties: the sweep returns every outcome\<close>

text \<open>
  The body of the loop over the charge states, for every input on which it returns: the
  entry it writes for the defect and the charge state holds the whole mapping of
  distortions that \<^verbatim>\<open>apply_snb_distortions\<close> returned for the arguments of this step,
  with nothing taken out.
\<close>

lemma charge_step_copies_distortions:
  assumes "charge_step distort rattle filename self verbose d el ne q state = (Inr state', evs)"
  shows "\<exists>entry res evs'.
           map_of (sw_distorted_defects_dict state) (name d) = Some entry
         \<and> apply_snb_distortions distort rattle filename d
              (get_number_distorted_neighbours (name d) ne q)
              (self_bond_distortions self) (self_stdev self)
              (kw_d_min (self_mc_rattle_kwargs self)) el verbose
              \<lparr>kw_active_atoms = kw_active_atoms (self_mc_rattle_kwargs self),
               kw_rest = kw_rest (self_mc_rattle_kwargs self)\<rparr> = (Inr res, evs')
         \<and> snb_Unperturbed res = d
         \<and> sw_distorted_defects_dict state'
             = AList.update (name d)
                 (entry\<lparr>dde_charges :=
                    AList.update q
                      (Some \<lparr>cs_Unperturbed = supercell_structure (snb_Unperturbed res),
                             cs_distortions = snb_distortions res\<rparr>)
                      (dde_charges entry)\<rparr>)
                 (sw_distorted_defects_dict state)"
proof -
  from assms obtain res evs' where
    snb: "apply_snb_distortions distort rattle filename d
              (get_number_distorted_neighbours (name d) ne q)
              (self_bond_distortions self) (self_stdev self)
              (kw_d_min (self_mc_rattle_kwargs self)) el verbose
              \<lparr>kw_active_atoms = kw_active_atoms (self_mc_rattle_kwargs self),
               kw_rest = kw_rest (self_mc_rattle_kwargs self)\<rparr> = (Inr res, evs')"
    by (auto simp: charge_step_def Let_def split: prod.splits sum.splits)
  have unp: "snb_Unperturbed res = d"
  proof (cases "get_number_distorted_neighbours (name d) ne q = 0")
    case True
    with snb show ?thesis
      by (auto simp: apply_snb_distortions_def Let_def split: prod.splits sum.splits)
  next
    case False
    with snb have
      "for_loop (snb_distortion_step distort rattle filename d
                   (get_number_distorted_neighbours (name d) ne q) (self_stdev self)
                   (kw_d_min (self_mc_rattle_kwargs self)) el verbose
                   \<lparr>kw_active_atoms = kw_active_atoms (self_mc_rattle_kwargs self),
                    kw_rest = kw_rest (self_mc_rattle_kwargs self)\<rparr>)
                (self_bond_distortions self)
         \<lparr>snb_Unperturbed = d, snb_distortions = [], snb_distortion_parameters = None\<rparr>
       = (Inr res, evs')"
      by (simp add: apply_snb_distortions_def Let_def)
    from snb_loop_keys [OF this] show ?thesis by simp
  qed
  from assms snb unp show ?thesis
    by (auto simp: charge_step_def Let_def split: prod.splits sum.splits option.splits)
qed

text \<open>
  The sweep of the example orchestrator, evaluated: one interstitial, one charge state,
  two bond distortions, and structures in which two sites are half an angstrom apart.
\<close>

lemma close_electrons:
  "parse_number_electrons ''Int_Cd_1'' CdTe_oxidation_states None Int_Cd_close
     = (Inr (- 2), CdTe_oxidation_states(''Vac'' \<mapsto> 0))"
  by (simp add: parse_number_electrons_def calc_number_electrons_def defect_species_def
      Int_Cd_close_def CdTe_oxidation_states_def Let_def)

lemma sweep_fields:
  "self_bond_distortions CdTe_sweep = [- (1 / 2), 1 / 2]"
  "self_stdev CdTe_sweep = 1 / 4" 
  "self_mc_rattle_kwargs CdTe_sweep = \<lparr>kw_active_atoms = None, kw_rest = [], kw_d_min = None\<rparr>"
  "self_distorted_elements CdTe_sweep = None"
  "self_dict_number_electrons_user CdTe_sweep = None"
  "self_oxidation_states CdTe_sweep = CdTe_oxidation_states"
  "self_defects_dict CdTe_sweep = [(''interstitials'', [Int_Cd_close]), (''bulk'', [])]"
  "self_distortion_metadata CdTe_sweep =
      \<lparr>md_distortion_parameters =
         \<lparr>rp_distortion_increment = None, rp_bond_distortions = [- (1 / 2), 1 / 2],
          rp_rattle_stdev = 1 / 4\<rparr>,
       md_defects = Some []\<rparr>"
  by (simp_all add: CdTe_sweep_def)

lemma close_neighbours: "get_number_distorted_neighbours ''Int_Cd_1'' (- 2) 0 = 2"
  by (simp add: get_number_distorted_neighbours_def num_electrons_charged_defect_def
      calc_number_neighbours_def)

lemma close_charge_step:
  "charge_step distort_nearest rattle_unchanged (get_distortion_filename percentage_text)
     CdTe_sweep v Int_Cd_close None (- 2) 0
     \<lparr>sw_distorted_defects_dict = setup_distorted_defect_dict ''Int_Cd_1'' Int_Cd_close [],
      sw_distortion_metadata =
        \<lparr>md_distortion_parameters =
           \<lparr>rp_distortion_increment = None, rp_bond_distortions = [- (1 / 2), 1 / 2],
            rp_rattle_stdev = 1 / 4\<rparr>,
         md_defects = Some [(''Int_Cd_1'',
            \<lparr>dm_unique_site = [1 / 2, 1 / 2, 1 / 2], dm_charges = Some [],
             dm_defect_site_index = None\<rparr>)]\<rparr>,
      sw_oxidation_states = CdTe_oxidation_states(''Vac'' \<mapsto> 0)\<rparr>
   = (Inr \<lparr>sw_distorted_defects_dict =
             [(''Int_Cd_1'',
              \<lparr>dde_defect_type = ''Int_Cd_1'',
               dde_defect_site = [1 / 2, 1 / 2, 1 / 2],
               dde_defect_supercell_site = [1 / 2, 1 / 2, 1 / 2],
               dde_defect_multiplicity = 1,
               dde_supercell = [1, 1, 1],
               dde_charges =
                 [(0, Some \<lparr>cs_Unperturbed = six_site_close,
                             cs_distortions =
                               [(''Bond_Distortion_-50.0%'', six_site_close),
                                (''Bond_Distortion_50.0%'', six_site_close)]\<rparr>)],
               dde_substitution_specie = None\<rparr>)],
           sw_distortion_metadata =
            \<lparr>md_distortion_parameters =
               \<lparr>rp_distortion_increment = None, rp_bond_distortions = [- (1 / 2), 1 / 2],
                rp_rattle_stdev = 1 / 4\<rparr>,
             md_defects = Some
               [(''Int_Cd_1'',
                 \<lparr>dm_unique_site = [1 / 2, 1 / 2, 1 / 2],
                  dm_charges = Some
                    [(IntKey 0,
                      \<lparr>cm_num_nearest_neighbours = 2,
                       cm_distorted_atoms = Some [(1, ''Cd'')],
                       cm_distortion_parameters = Some
                         \<lparr>cdp_bond_distortions = Some [- (1 / 2), 1 / 2],
                          cdp_rattle_stdev = Some (1 / 4)\<rparr>\<rparr>)],
                  dm_defect_site_index = Some 6\<rparr>)]\<rparr>,
           sw_oxidation_states = CdTe_oxidation_states(''Vac'' \<mapsto> 0)\<rparr>,
      [RattleCalled \<lparr>ra_structure = six_site_close, ra_stdev = 1 / 4, ra_d_min = 248 / 100,
                     ra_active_atoms = Some [1, 2, 3, 4], ra_kwargs = []\<rparr>,
       RattleCalled \<lparr>ra_structure = six_site_close, ra_stdev = 1 / 4, ra_d_min = 248 / 100,
                     ra_active_atoms = Some [1, 2, 3, 4], ra_kwargs = []\<rparr>])"
  by (simp add: charge_step_def Let_def close_fields sweep_fields close_neighbours close_snb
      setup_distorted_defect_dict_def update_distortion_metadata_def truthy_int_def)

lemma close_sweep_run:
  "apply_distortions distort_nearest rattle_unchanged (get_distortion_filename percentage_text)
     CdTe_sweep v
   = (Inr (([(''Int_Cd_1'',
              \<lparr>dde_defect_type = ''Int_Cd_1'',
               dde_defect_site = [1 / 2, 1 / 2, 1 / 2],
               dde_defect_supercell_site = [1 / 2, 1 / 2, 1 / 2],
               dde_defect_multiplicity = 1,
               dde_supercell = [1, 1, 1],
               dde_charges =
                 [(0, Some \<lparr>cs_Unperturbed = six_site_close,
                             cs_distortions =
                               [(''Bond_Distortion_-50.0%'', six_site_close),
                                (''Bond_Distortion_50.0%'', six_site_close)]\<rparr>)],
               dde_substitution_specie = None\<rparr>)],
            \<lparr>md_distortion_parameters =
               \<lparr>rp_distortion_increment = None, rp_bond_distortions = [- (1 / 2), 1 / 2],
                rp_rattle_stdev = 1 / 4\<rparr>,
             md_defects = Some
               [(''Int_Cd_1'',
                 \<lparr>dm_unique_site = [1 / 2, 1 / 2, 1 / 2],
                  dm_charges = Some
                    [(IntKey 0,
                      \<lparr>cm_num_nearest_neighbours = 2,
                       cm_distorted_atoms = Some [(1, ''Cd'')],
                       cm_distortion_parameters = Some
                         \<lparr>cdp_bond_distortions = Some [- (1 / 2), 1 / 2],
                          cdp_rattle_stdev = Some (1 / 4)\<rparr>\<rparr>)],
                  dm_defect_site_index = Some 6\<rparr>)]\<rparr>),
           CdTe_sweep
             \<lparr>self_distortion_metadata :=
                \<lparr>md_distortion_parameters =
               \<lparr>rp_distortion_increment = None, rp_bond_distortions = [- (1 / 2), 1 / 2],
                rp_rattle_stdev = 1 / 4\<rparr>,
             md_defects = Some
               [(''Int_Cd_1'',
                 \<lparr>dm_unique_site = [1 / 2, 1 / 2, 1 / 2],
                  dm_charges = Some
                    [(IntKey 0,
                      \<lparr>cm_num_nearest_neighbours = 2,
                       cm_distorted_atoms = Some [(1, ''Cd'')],
                       cm_distortion_parameters = Some
                         \<lparr>cdp_bond_distortions = Some [- (1 / 2), 1 / 2],
                          cdp_rattle_stdev = Some (1 / 4)\<rparr>\<rparr>)],
                  dm_defect_site_index = Some 6\<rparr>)]\<rparr>,
              self_oxidation_states := CdTe_oxidation_states(''Vac'' \<mapsto> 0)\<rparr>),
      [RattleCalled \<lparr>ra_structure = six_site_close, ra_stdev = 1 / 4, ra_d_min = 248 / 100,
                     ra_active_atoms = Some [1, 2, 3, 4], ra_kwargs = []\<rparr>,
       RattleCalled \<lparr>ra_structure = six_site_close, ra_stdev = 1 / 4, ra_d_min = 248 / 100,
                     ra_active_atoms = Some [1, 2, 3, 4], ra_kwargs = []\<rparr>])"
proof -
  have step: "defect_step distort_nearest rattle_unchanged
      (get_distortion_filename percentage_text) CdTe_sweep v Int_Cd_close
      \<lparr>sw_distorted_defects_dict = [],
       sw_distortion_metadata = self_distortion_metadata CdTe_sweep,
       sw_oxidation_states = self_oxidation_states CdTe_sweep\<rparr>
    = charge_step distort_nearest rattle_unchanged (get_distortion_filename percentage_text)
     CdTe_sweep v Int_Cd_close None (- 2) 0
     \<lparr>sw_distorted_defects_dict = setup_distorted_defect_dict ''Int_Cd_1'' Int_Cd_close [],
      sw_distortion_metadata =
        \<lparr>md_distortion_parameters =
           \<lparr>rp_distortion_increment = None, rp_bond_distortions = [- (1 / 2), 1 / 2],
            rp_rattle_stdev = 1 / 4\<rparr>,
         md_defects = Some [(''Int_Cd_1'',
            \<lparr>dm_unique_site = [1 / 2, 1 / 2, 1 / 2], dm_charges = Some [],
             dm_defect_site_index = None\<rparr>)]\<rparr>,
      sw_oxidation_states = CdTe_oxidation_states(''Vac'' \<mapsto> 0)\<rparr>"
    by (simp add: defect_step_def Let_def close_fields sweep_fields parse_distorted_element_def
        close_electrons close_charge_step)
  have run: "apply_distortions distort_nearest rattle_unchanged
               (get_distortion_filename percentage_text) CdTe_sweep v
      = (case for_loop (defect_step distort_nearest rattle_unchanged
                          (get_distortion_filename percentage_text) CdTe_sweep v)
                [Int_Cd_close]
                \<lparr>sw_distorted_defects_dict = [],
                 sw_distortion_metadata = self_distortion_metadata CdTe_sweep,
                 sw_oxidation_states = self_oxidation_states CdTe_sweep\<rparr> of
           (Inl e, evs) \<Rightarrow> (Inl e, evs)
         | (Inr state, evs) \<Rightarrow>
             (Inr ((sw_distorted_defects_dict state, sw_distortion_metadata state),
                   CdTe_sweep\<lparr>self_distortion_metadata := sw_distortion_metadata state,
                              self_oxidation_states := sw_oxidation_states state\<rparr>),
              evs))"
    by (simp add: apply_distortions_def Let_def sweep_fields(7))
  show ?thesis
    unfolding run by (simp add: step close_charge_step)
qed

text \<open>
  Claim C4 fails on the code. The claim, and the tests of the sweep, have every
  bond-distortion outcome with a minimum interatomic distance below 1 angstrom left out
  of the returned results when the structure holds no hydrogen, with a warning when
  \<^verbatim>\<open>verbose\<close> is set. \<^verbatim>\<open>apply_distortions\<close> copies the mapping of
  \<^verbatim>\<open>apply_snb_distortions\<close> as it is: for the example orchestrator, verbose or not, it
  returns both outcomes, whose minimum interatomic distance is half an angstrom and which
  hold no hydrogen, and its only events are the two calls of \<^verbatim>\<open>rattle\<close>; there is no
  warning.
\<close>

theorem apply_distortions_returns_short_contact:
  "(\<forall>verbose.
     apply_distortions distort_nearest rattle_unchanged
       (get_distortion_filename percentage_text) CdTe_sweep verbose
   = (Inr (([(''Int_Cd_1'',
              \<lparr>dde_defect_type = ''Int_Cd_1'',
               dde_defect_site = [1 / 2, 1 / 2, 1 / 2],
               dde_defect_supercell_site = [1 / 2, 1 / 2, 1 / 2],
               dde_defect_multiplicity = 1,
               dde_supercell = [1, 1, 1],
               dde_charges =
                 [(0, Some \<lparr>cs_Unperturbed = six_site_close,
                             cs_distortions =
                               [(''Bond_Distortion_-50.0%'', six_site_close),
                                (''Bond_Distortion_50.0%'', six_site_close)]\<rparr>)],
               dde_substitution_specie = None\<rparr>)],
            \<lparr>md_distortion_parameters =
               \<lparr>rp_distortion_increment = None, rp_bond_distortions = [- (1 / 2), 1 / 2],
                rp_rattle_stdev = 1 / 4\<rparr>,
             md_defects = Some
               [(''Int_Cd_1'',
                 \<lparr>dm_unique_site = [1 / 2, 1 / 2, 1 / 2],
                  dm_charges = Some
                    [(IntKey 0,
                      \<lparr>cm_num_nearest_neighbours = 2,
                       cm_distorted_atoms = Some [(1, ''Cd'')],
                       cm_distortion_parameters = Some
                         \<lparr>cdp_bond_distortions = Some [- (1 / 2), 1 / 2],
                          cdp_rattle_stdev = Some (1 / 4)\<rparr>\<rparr>)],
                  dm_defect_site_index = Some 6\<rparr>)]\<rparr>),
           CdTe_sweep
             \<lparr>self_distortion_metadata :=
                \<lparr>md_distortion_parameters =
               \<lparr>rp_distortion_increment = None, rp_bond_distortions = [- (1 / 2), 1 / 2],
                rp_rattle_stdev = 1 / 4\<rparr>,
             md_defects = Some
               [(''Int_Cd_1'',
                 \<lparr>dm_unique_site = [1 / 2, 1 / 2, 1 / 2],
                  dm_charges = Some
                    [(IntKey 0,
                      \<lparr>cm_num_nearest_neighbours = 2,
                       cm_distorted_atoms = Some [(1, ''Cd'')],
                       cm_distortion_parameters = Some
                         \<lparr>cdp_bond_distortions = Some [- (1 / 2), 1 / 2],
                          cdp_rattle_stdev = Some (1 / 4)\<rparr>\<rparr>)],
                  dm_defect_site_index = Some 6\<rparr>)]\<rparr>,
              self_oxidation_states := CdTe_oxidation_states(''Vac'' \<mapsto> 0)\<rparr>),
      [RattleCalled \<lparr>ra_structure = six_site_close, ra_stdev = 1 / 4, ra_d_min = 248 / 100,
                     ra_active_atoms = Some [1, 2, 3, 4], ra_kwargs = []\<rparr>,
       RattleCalled \<lparr>ra_structure = six_site_close, ra_stdev = 1 / 4, ra_d_min = 248 / 100,
                     ra_active_atoms = Some [1, 2, 3, 4], ra_kwargs = []\<rparr>]))
   \<and> Min (set (concat (distance_matrix six_site_close)) - {0}) = 1 / 2
   \<and> (1 / 2 :: real) < 1
   \<and> ''H'' \<notin> set (species six_site_close)"
proof -
  have short: "Min (set (concat (distance_matrix six_site_close)) - {0}) = 1 / 2"
  proof -
    have "\<forall>x\<in>set (concat (distance_matrix six_site_close)). 0 \<le> x"
      by (simp add: six_site_close_def)
    moreover have "length (filter (\<lambda>x. x = 0) (concat (distance_matrix six_site_close))) = 6"
      by (simp add: six_site_close_def)
    moreover have "6 < length (concat (distance_matrix six_site_close))"
      by (simp add: six_site_close_def)
    ultimately have "sort (concat (distance_matrix six_site_close)) ! 6
                       = Min (set (concat (distance_matrix six_site_close)) - {0})"
      by (rule sort_nth_zeros_Min)
    moreover have "sort (concat (distance_matrix six_site_close)) ! 6 = 1 / 2"
      by (simp add: six_site_close_def)
    ultimately show ?thesis by simp
  qed
  have no_H: "''H'' \<notin> set (species six_site_close)"
    by (simp add: six_site_close_def)
  show ?thesis
    apply (intro conjI)
    subgoal by (intro allI) (rule close_sweep_run)
    subgoal by (rule short)
    subgoal by simp
    subgoal by (rule no_H)
    done
qed

end
